theory Spec2Isabelle
  imports Complex_Main
begin

section \<open>Data model (index.js, lines 8-24)\<close>

text \<open>
  The two mongoose schemas. Neither schema declares a unique index, so a collection is a
  list of documents in insertion order and may hold several documents with the same key.
  A stored \<open>Date\<close> is its time value, the number of milliseconds since the epoch. The
  \<open>Number\<close> of a day count is a double with an integer value: \<open>duration\<close> starts at 0
  and only ever has integer options added to it (line 138), each sum rounded to a double
  (\<open>roundDouble\<close> below).
\<close>

record permission =
  p_guildId :: string
  userId :: string
  canAddTime :: bool
  canRemoveTime :: bool

record subscription =
  s_guildId :: string
  startDate :: int
  duration :: int

record store =
  permissions :: "permission list"
  subscriptions :: "subscription list"

section \<open>Store operations used by the handlers\<close>

text \<open>\<open>Model.findOne(filter)\<close>: the first document that matches, or null.\<close>

definition Subscription_findOne :: "string \<Rightarrow> store \<Rightarrow> subscription option" where
  "Subscription_findOne g db = find (\<lambda>s. s_guildId s = g) (subscriptions db)"

definition Permission_findOne :: "string \<Rightarrow> string \<Rightarrow> store \<Rightarrow> permission option" where
  "Permission_findOne g u db = find (\<lambda>p. p_guildId p = g \<and> userId p = u) (permissions db)"

text \<open>\<open>Model.create(doc)\<close>: always inserts a new document; schema defaults fill the
  fields that are not given (\<open>startDate\<close>: \<open>Date.now\<close>, \<open>duration\<close>: 0).\<close>

definition Permission_create :: "permission \<Rightarrow> store \<Rightarrow> store" where
  "Permission_create p db = db\<lparr>permissions := permissions db @ [p]\<rparr>"

definition Subscription_create :: "string \<Rightarrow> int \<Rightarrow> store \<Rightarrow> store" where
  "Subscription_create g t db =
     db\<lparr>subscriptions := subscriptions db @ [\<lparr>s_guildId = g, startDate = t, duration = 0\<rparr>]\<rparr>"

text \<open>\<open>Model.findOneAndDelete(filter)\<close>: removes the first document that matches, if any.\<close>

fun deleteFirst :: "('a \<Rightarrow> bool) \<Rightarrow> 'a list \<Rightarrow> 'a list" where
  "deleteFirst P [] = []"
| "deleteFirst P (x # xs) = (if P x then xs else x # deleteFirst P xs)"

definition Permission_findOneAndDelete :: "string \<Rightarrow> string \<Rightarrow> store \<Rightarrow> store" where
  "Permission_findOneAndDelete g u db =
     db\<lparr>permissions := deleteFirst (\<lambda>p. p_guildId p = g \<and> userId p = u) (permissions db)\<rparr>"

text \<open>\<open>doc.save()\<close> on the document that \<open>findOne\<close> returned: that document, the first
  one of its guild, is replaced by the changed copy.\<close>

fun replaceFirst :: "('a \<Rightarrow> bool) \<Rightarrow> 'a \<Rightarrow> 'a list \<Rightarrow> 'a list" where
  "replaceFirst P y [] = []"
| "replaceFirst P y (x # xs) = (if P x then y # xs else x # replaceFirst P y xs)"

definition Subscription_save :: "subscription \<Rightarrow> store \<Rightarrow> store" where
  "Subscription_save s db =
     db\<lparr>subscriptions := replaceFirst (\<lambda>x. s_guildId x = s_guildId s) s (subscriptions db)\<rparr>"

section \<open>Requests, replies and the environment of one handler run\<close>

text \<open>
  The fields of an interaction that the handler reads. The options are declared required in
  the command list (lines 176-214), so each getter returns a value of its type; an integer
  option is an integer of magnitude at most \<open>2 ^ 53\<close>.
\<close>

record interaction =
  isCommand :: bool
  commandName :: string
  user_id :: string
  guild_id :: string
  opt_user :: string
  opt_addtime :: bool
  opt_removetime :: bool
  opt_days :: int

text \<open>
  What one run of a handler reads from outside: the clock (the time value of
  \<open>new Date()\<close> and \<open>Date.now\<close>) and whether the store's read and the store's write
  throw. A store call that throws leaves the collections as they were.
\<close>

record world =
  clock :: int
  find_fails :: bool
  write_fails :: bool

text \<open>
  The texts a handler replies with: the seven entries of \<open>ERROR_MESSAGES\<close> (lines 41-49)
  under their keys, then the literal replies of the command branches.
\<close>

datatype message =
    unauthorized
  | commandNotFound
  | invalidParameters
  | databaseError
  | permissionDenied
  | subscriptionExpired
  | subscriptionNotFound
  | AccessGranted       \<comment> \<open>'Access granted successfully.'\<close>
  | GrantFailed         \<comment> \<open>'Failed to grant access.'\<close>
  | AccessRevoked       \<comment> \<open>'Access revoked successfully.'\<close>
  | RevokeFailed        \<comment> \<open>'Failed to revoke access.'\<close>
  | Extended int        \<comment> \<open>`Subscription extended by ${additionalDays} days.`\<close>
  | Remaining "int option"
      \<comment> \<open>`Subscription has ${remainingDays} days remaining.`, \<open>None\<close> when the number is NaN\<close>

record reply =
  content :: message
  ephemeral :: bool

definition ephemeralReply :: "message \<Rightarrow> reply" where
  "ephemeralReply m = \<lparr>content = m, ephemeral = True\<rparr>"

definition plainReply :: "message \<Rightarrow> reply" where
  "plainReply m = \<lparr>content = m, ephemeral = False\<rparr>"

section \<open>The handlers\<close>

subsection \<open>guildCreate (lines 56-64)\<close>

definition guildCreate :: "world \<Rightarrow> string \<Rightarrow> store \<Rightarrow> store" where
  "guildCreate w g db =
     (if write_fails w then db else Subscription_create g (clock w) db)"

subsection \<open>Numbers and dates of the runtime\<close>

text \<open>
  The sum of two doubles with integer values is the exact sum rounded to the nearest double,
  a tie going to the even significand. A double has 53 significant bits, so an integer of
  \<open>n\<close> bits is rounded to a multiple of \<open>2 ^ (n - 53)\<close>, and an integer of at most 53 bits
  is kept as it is. (No sum of the handler overflows: the options are of magnitude at most
  \<open>2 ^ 53\<close>.)
\<close>

fun bitLength :: "nat \<Rightarrow> nat" where
  "bitLength n = (if n = 0 then 0 else Suc (bitLength (n div 2)))"

declare bitLength.simps [simp del]

definition roundDouble :: "int \<Rightarrow> int" where
  "roundDouble x =
     (let u = 2 ^ (bitLength (nat \<bar>x\<bar>) - 53); q = x div u; r = x mod u
      in if 2 * r < u \<or> (2 * r = u \<and> even q) then q * u else (q + 1) * u)"

text \<open>
  The time value of a \<open>Date\<close> is an integer of magnitude at most 8.64e15 or NaN, the
  Invalid Date, which is \<open>None\<close> here. \<open>TimeClip\<close> makes a time value of a number.
\<close>

definition TimeClip :: "int \<Rightarrow> int option" where
  "TimeClip t = (if \<bar>t\<bar> > 8640000000000000 then None else Some t)"

text \<open>
  The time zone of the process: the offset of local time from UTC in milliseconds, at a UTC
  time value (\<open>LocalTZA(t, true)\<close>) and at a local one (\<open>LocalTZA(t, false)\<close>). Where
  daylight saving time begins or ends, the offset changes.
\<close>

record zone =
  offsetAtUTC :: "int \<Rightarrow> int"
  offsetAtLocal :: "int \<Rightarrow> int"

definition LocalTime :: "zone \<Rightarrow> int \<Rightarrow> int" where
  "LocalTime z t = t + offsetAtUTC z t"

definition UTC :: "zone \<Rightarrow> int \<Rightarrow> int" where
  "UTC z t = t - offsetAtLocal z t"

definition msPerDay :: int where
  "msPerDay = 1000 * 60 * 60 * 24"

text \<open>
  \<open>d.setDate(d.getDate() + n)\<close> on a valid date: the local time moves by \<open>n\<close> calendar
  days, keeping its time of day (\<open>MakeDay\<close> of the local year and month with day of month
  \<open>getDate() + n\<close> is the local day number plus \<open>n\<close>), and is taken back to UTC and
  clipped. Where the result is in range every step is exact in doubles; where it is not,
  the result is the Invalid Date.
\<close>

definition setDatePlus :: "zone \<Rightarrow> int \<Rightarrow> int \<Rightarrow> int option" where
  "setDatePlus z t n = TimeClip (UTC z (LocalTime z t + n * msPerDay))"

subsection \<open>Expiry (lines 84-90)\<close>

text \<open>
  \<open>expiryDate = new Date(startDate); expiryDate.setDate(expiryDate.getDate() + duration)\<close>
\<close>

definition expiryDate :: "zone \<Rightarrow> subscription \<Rightarrow> int option" where
  "expiryDate z s =
     (case TimeClip (startDate s) of
        None \<Rightarrow> None
      | Some t \<Rightarrow> setDatePlus z t (duration s))"

text \<open>
  \<open>currentDate > expiryDate\<close> compares the two time values; against NaN every comparison
  is false.
\<close>

definition dateGreater :: "int \<Rightarrow> int option \<Rightarrow> bool" where
  "dateGreater current expiry = (case expiry of None \<Rightarrow> False | Some e \<Rightarrow> current > e)"

text \<open>
  Lines 72-90, which every command passes first: the lookup, then the comparison
  \<open>currentDate > expiryDate\<close>. \<open>Inl\<close> is the reply of an early return, \<open>Inr\<close> the
  subscription the command branches go on with.
\<close>

definition subscriptionGate ::
  "zone \<Rightarrow> world \<Rightarrow> interaction \<Rightarrow> store \<Rightarrow> reply + subscription" where
  "subscriptionGate z w i db =
     (if find_fails w then Inl (ephemeralReply databaseError)
      else case Subscription_findOne (guild_id i) db of
        None \<Rightarrow> Inl (ephemeralReply subscriptionNotFound)
      | Some s \<Rightarrow>
          if dateGreater (clock w) (expiryDate z s) then Inl (ephemeralReply subscriptionExpired)
          else Inr s)"

subsection \<open>checksubscription (lines 147-151)\<close>

text \<open>
  \<open>Math.max(0, Math.ceil((expiryDate - currentDate) / (1000 * 60 * 60 * 24)))\<close>: NaN when
  \<open>expiryDate\<close> is the Invalid Date. Otherwise the difference of the two time values is
  rounded to a double, and the quotient is the double nearest to the exact quotient. The
  difference is below \<open>2 ^ 54\<close> and, above \<open>2 ^ 53\<close>, even, so an exact quotient that is
  not whole is farther from the whole number below it than half the gap between the doubles
  there: the double quotient has the ceiling of the exact one.
\<close>

definition remainingDays :: "int option \<Rightarrow> int \<Rightarrow> int option" where
  "remainingDays expiry current =
     (case expiry of
        None \<Rightarrow> None
      | Some e \<Rightarrow>
          Some (max 0 \<lceil>real_of_int (roundDouble (e - current)) /
                        real_of_int (1000 * 60 * 60 * 24)\<rceil>))"

subsection \<open>hasPermission (lines 170-173)\<close>

text \<open>The truth value of \<open>permission && (permission.canAddTime || permission.canRemoveTime)\<close>.
  No handler calls this function.\<close>

definition hasPermission :: "store \<Rightarrow> string \<Rightarrow> string \<Rightarrow> bool" where
  "hasPermission db g u =
     (case Permission_findOne g u db of
        None \<Rightarrow> False
      | Some p \<Rightarrow> canAddTime p \<or> canRemoveTime p)"

subsection \<open>interactionCreate (lines 66-167)\<close>

text \<open>
  The first two arguments are fixed for the life of the process: its time zone and
  \<open>process.env.BOT_CREATOR_ID\<close>.
  The result is the store after the run and the reply sent, \<open>None\<close> when the handler
  returns without replying. The branches of \<open>addtime\<close>, \<open>listtimes\<close>, \<open>resetplaytime\<close>,
  \<open>resetallplaytimes\<close> and \<open>removeplaytime\<close> have empty bodies, so these names, like an
  unknown name, fall through every test to the end of the handler.
\<close>

definition interactionCreate ::
  "zone \<Rightarrow> string \<Rightarrow> world \<Rightarrow> interaction \<Rightarrow> store \<Rightarrow> store \<times> reply option" where
  "interactionCreate z BOT_CREATOR_ID w i db =
     (if \<not> isCommand i then (db, None)
      else case subscriptionGate z w i db of
        Inl r \<Rightarrow> (db, Some r)
      | Inr s \<Rightarrow>
          if commandName i = ''grantaccess'' then
            (if write_fails w then (db, Some (plainReply GrantFailed))
             else (Permission_create
                     \<lparr>p_guildId = guild_id i, userId = opt_user i,
                      canAddTime = opt_addtime i, canRemoveTime = opt_removetime i\<rparr> db,
                   Some (plainReply AccessGranted)))
          else if commandName i = ''revokeaccess'' then
            (if write_fails w then (db, Some (plainReply RevokeFailed))
             else (Permission_findOneAndDelete (guild_id i) (opt_user i) db,
                   Some (plainReply AccessRevoked)))
          else if commandName i = ''extendtime'' then
            (if user_id i \<noteq> BOT_CREATOR_ID then (db, Some (ephemeralReply permissionDenied))
             else if write_fails w then (db, Some (ephemeralReply databaseError))
             else (Subscription_save
                     (s\<lparr>duration := roundDouble (duration s + opt_days i)\<rparr>) db,
                   Some (plainReply (Extended (opt_days i)))))
          else if commandName i = ''checksubscription'' then
            (db, Some (plainReply (Remaining (remainingDays (expiryDate z s) (clock w)))))
          else (db, None))"

text \<open>A sequence of handler runs, each with its own environment, and the replies in order.\<close>

fun run ::
  "zone \<Rightarrow> string \<Rightarrow> (world \<times> interaction) list \<Rightarrow> store \<Rightarrow> store \<times> reply option list" where
  "run z owner [] db = (db, [])"
| "run z owner ((w, i) # rest) db =
     (case interactionCreate z owner w i db of
        (db', r) \<Rightarrow> (case run z owner rest db' of (db'', rs) \<Rightarrow> (db'', r # rs)))"

text \<open>A sequence of join notifications.\<close>

fun joins :: "(world \<times> string) list \<Rightarrow> store \<Rightarrow> store" where
  "joins [] db = db"
| "joins ((w, g) # rest) db = joins rest (guildCreate w g db)"

text \<open>The documents of one key, in insertion order.\<close>

definition permissionsOf :: "string \<Rightarrow> string \<Rightarrow> store \<Rightarrow> permission list" where
  "permissionsOf g u db = filter (\<lambda>p. p_guildId p = g \<and> userId p = u) (permissions db)"

definition subscriptionsOf :: "string \<Rightarrow> store \<Rightarrow> subscription list" where
  "subscriptionsOf g db = filter (\<lambda>s. s_guildId s = g) (subscriptions db)"

text \<open>How many notifications of a sequence are for guild \<open>g\<close> and have their write succeed.\<close>

definition successfulJoins :: "string \<Rightarrow> (world \<times> string) list \<Rightarrow> nat" where
  "successfulJoins g js = length (filter (\<lambda>j. snd j = g \<and> \<not> write_fails (fst j)) js)"

section \<open>Concrete stores and requests\<close>

definition emptyStore :: store where
  "emptyStore = \<lparr>permissions = [], subscriptions = []\<rparr>"

text \<open>UTC, and a zone five hours behind UTC until 2024-03-10 07:00 UTC and four hours
  behind from then on.\<close>

definition utc :: zone where
  "utc = \<lparr>offsetAtUTC = (\<lambda>t. 0), offsetAtLocal = (\<lambda>t. 0)\<rparr>"

definition eastern :: zone where
  "eastern =
     \<lparr>offsetAtUTC = (\<lambda>t. if t < 1710054000000 then - 18000000 else - 14400000),
      offsetAtLocal = (\<lambda>t. if t < 1710036000000 then - 18000000 else - 14400000)\<rparr>"

definition calm :: "int \<Rightarrow> world" where
  "calm t = \<lparr>clock = t, find_fails = False, write_fails = False\<rparr>"

definition request :: "string \<Rightarrow> string \<Rightarrow> string \<Rightarrow> interaction" where
  "request name caller g =
     \<lparr>isCommand = True, commandName = name, user_id = caller, guild_id = g,
      opt_user = ''u9'', opt_addtime = True, opt_removetime = False, opt_days = 10\<rparr>"

text \<open>Guild \<open>g1\<close> with a subscription of 30 days that started at time 0.\<close>

definition store30 :: store where
  "store30 = \<lparr>permissions = [],
              subscriptions = [\<lparr>s_guildId = ''g1'', startDate = 0, duration = 30\<rparr>]\<rparr>"

text \<open>The same guild after \<open>grantaccess\<close> for user \<open>u9\<close> with add but not remove.\<close>

definition storeGranted :: store where
  "storeGranted = \<lparr>permissions =
       [\<lparr>p_guildId = ''g1'', userId = ''u9'', canAddTime = True, canRemoveTime = False\<rparr>],
     subscriptions = [\<lparr>s_guildId = ''g1'', startDate = 0, duration = 30\<rparr>]\<rparr>"

text \<open>Requests of the owner on guild \<open>g1\<close>: \<open>grantaccess\<close> for user \<open>u9\<close> with the two
  flags given, and \<open>extendtime\<close> with the number of days given.\<close>

definition grantRequest :: "bool \<Rightarrow> bool \<Rightarrow> interaction" where
  "grantRequest a r = (request ''grantaccess'' ''owner'' ''g1'')\<lparr>opt_addtime := a, opt_removetime := r\<rparr>"

definition extendRequest :: "int \<Rightarrow> interaction" where
  "extendRequest d = (request ''extendtime'' ''owner'' ''g1'')\<lparr>opt_days := d\<rparr>"

text \<open>Guild \<open>g1\<close> with a subscription of 30 days that started on 2024-03-09 at 15:00 UTC.\<close>

definition storeSpring :: store where
  "storeSpring = \<lparr>permissions = [],
     subscriptions = [\<lparr>s_guildId = ''g1'', startDate = 1709996400000, duration = 30\<rparr>]\<rparr>"

text \<open>Guild \<open>g1\<close> after the owner's \<open>extendtime\<close> on \<open>store30\<close> with 9007199254740962 days,
  with 9007199254740964 days, with 99999971 days and with -100000031 days.\<close>

definition storeHuge :: store where
  "storeHuge = \<lparr>permissions = [],
     subscriptions = [\<lparr>s_guildId = ''g1'', startDate = 0, duration = 9007199254740992\<rparr>]\<rparr>"

definition storeHuger :: store where
  "storeHuger = \<lparr>permissions = [],
     subscriptions = [\<lparr>s_guildId = ''g1'', startDate = 0, duration = 9007199254740994\<rparr>]\<rparr>"

definition storeForever :: store where
  "storeForever = \<lparr>permissions = [],
     subscriptions = [\<lparr>s_guildId = ''g1'', startDate = 0, duration = 100000001\<rparr>]\<rparr>"

definition storeNegative :: store where
  "storeNegative = \<lparr>permissions = [],
     subscriptions = [\<lparr>s_guildId = ''g1'', startDate = 0, duration = - 100000001\<rparr>]\<rparr>"

section \<open>Numbers and dates\<close>

lemma bitLength_le: "n < 2 ^ k \<Longrightarrow> bitLength n \<le> k"
proof (induction k arbitrary: n)
  case 0
  then show ?case by (simp add: bitLength.simps)
next
  case (Suc k)
  show ?case
  proof (cases "n = 0")
    case True
    then show ?thesis by (simp add: bitLength.simps)
  next
    case False
    have "n div 2 < 2 ^ k" using Suc.prems by auto
    then have "bitLength (n div 2) \<le> k" by (rule Suc.IH)
    then show ?thesis using False by (subst bitLength.simps) simp
  qed
qed

lemma bitLength_power: "bitLength (2 ^ k) = Suc k"
  by (induction k) (simp_all add: bitLength.simps [of "Suc 0"] bitLength.simps [of 0]
        bitLength.simps [of "2 * _"])

lemma roundDouble_exact: "\<bar>x\<bar> \<le> 9007199254740992 \<Longrightarrow> roundDouble x = x"
proof (cases "\<bar>x\<bar> = 9007199254740992")
  case True
  have "nat \<bar>x\<bar> = 2 ^ 53" using True by simp
  then have "bitLength (nat \<bar>x\<bar>) = 54" by (simp only: bitLength_power)
  then have u: "(2::int) ^ (bitLength (nat \<bar>x\<bar>) - 53) = 2" by simp
  have "x = 9007199254740992 \<or> x = - 9007199254740992" using True by linarith
  then show ?thesis unfolding roundDouble_def u by (auto simp: Let_def)
next
  case False
  assume "\<bar>x\<bar> \<le> 9007199254740992"
  then have "nat \<bar>x\<bar> < 2 ^ 53" using False by simp
  then have "bitLength (nat \<bar>x\<bar>) \<le> 53" by (rule bitLength_le)
  then have u: "(2::int) ^ (bitLength (nat \<bar>x\<bar>) - 53) = 1" by simp
  show ?thesis unfolding roundDouble_def u by (simp add: Let_def)
qed

lemma roundDouble_tie_up: "roundDouble 9007199254740993 = 9007199254740992"
proof -
  have "bitLength (nat \<bar>9007199254740993::int\<bar>) = Suc (bitLength (2 ^ 52))"
    by (subst bitLength.simps) simp
  then have "bitLength (nat \<bar>9007199254740993::int\<bar>) = 54" by (simp only: bitLength_power)
  then have u: "(2::int) ^ (bitLength (nat \<bar>9007199254740993::int\<bar>) - 53) = 2" by simp
  show ?thesis unfolding roundDouble_def u by (simp add: Let_def)
qed

lemma roundDouble_even:
  assumes "\<bar>x\<bar> < 18014398509481984" and "even x"
  shows "roundDouble x = x"
proof -
  have "nat \<bar>x\<bar> < 2 ^ 54" using assms(1) by simp
  then have "bitLength (nat \<bar>x\<bar>) \<le> 54" by (rule bitLength_le)
  then consider "bitLength (nat \<bar>x\<bar>) - 53 = 0" | "bitLength (nat \<bar>x\<bar>) - 53 = 1"
    by linarith
  then show ?thesis
  proof cases
    case 1
    show ?thesis unfolding roundDouble_def 1 by (simp add: Let_def)
  next
    case 2
    have "x mod 2 = 0" and "x div 2 * 2 = x" using assms(2) by presburger+
    then show ?thesis unfolding roundDouble_def 2 by (simp add: Let_def)
  qed
qed

lemma expiry_in_range: "expiryDate z s = Some e \<Longrightarrow> \<bar>e\<bar> \<le> 8640000000000000"
  by (auto simp: expiryDate_def setDatePlus_def TimeClip_def split: option.splits if_splits)

lemma dateGreater_Some: "dateGreater c (Some e) = (c > e)"
  by (simp add: dateGreater_def)

lemma dateGreater_None: "dateGreater c None = False"
  by (simp add: dateGreater_def)

lemma expiryDate_same_offset:
  assumes "expiryDate z s = Some e"
    and "offsetAtLocal z (startDate s + offsetAtUTC z (startDate s) + duration s * 86400000)
           = offsetAtUTC z (startDate s)"
  shows "e = startDate s + duration s * 86400000"
  using assms
  by (auto simp: expiryDate_def setDatePlus_def TimeClip_def LocalTime_def UTC_def msPerDay_def
        split: option.splits if_splits)

section \<open>Subscription lookup\<close>

lemma gate_find_fails:
  "find_fails w \<Longrightarrow> subscriptionGate z w i db = Inl (ephemeralReply databaseError)"
  by (simp add: subscriptionGate_def)

lemma gate_not_found:
  "\<not> find_fails w \<Longrightarrow> Subscription_findOne (guild_id i) db = None \<Longrightarrow>
   subscriptionGate z w i db = Inl (ephemeralReply subscriptionNotFound)"
  by (simp add: subscriptionGate_def)

lemma gate_found:
  "\<not> find_fails w \<Longrightarrow> Subscription_findOne (guild_id i) db = Some s \<Longrightarrow>
   subscriptionGate z w i db =
     (if dateGreater (clock w) (expiryDate z s) then Inl (ephemeralReply subscriptionExpired)
      else Inr s)"
  by (simp add: subscriptionGate_def)

lemma denied_by_gate:
  "isCommand i \<Longrightarrow> subscriptionGate z w i db = Inl r \<Longrightarrow>
   interactionCreate z owner w i db = (db, Some r)"
  by (simp add: interactionCreate_def)

section \<open>Lists and the store\<close>

lemma find_holds: "find P xs = Some x \<Longrightarrow> P x"
  by (induction xs) (auto split: if_splits)

lemma find_replaceFirst:
  "P y \<Longrightarrow> find P (replaceFirst P y xs) = (case find P xs of None \<Rightarrow> None | Some x \<Rightarrow> Some y)"
  by (induction xs) auto

lemma filter_replaceFirst_other:
  "\<not> Q y \<Longrightarrow> (\<And>x. P x \<Longrightarrow> \<not> Q x) \<Longrightarrow> filter Q (replaceFirst P y xs) = filter Q xs"
  by (induction xs) auto

lemma find_filter_hd:
  "find P xs = (case filter P xs of [] \<Rightarrow> None | x # _ \<Rightarrow> Some x)"
  by (induction xs) auto

lemma gate_allowed_iff:
  "subscriptionGate z w i db = Inr s \<longleftrightarrow>
     \<not> find_fails w \<and> Subscription_findOne (guild_id i) db = Some s
     \<and> \<not> dateGreater (clock w) (expiryDate z s)"
  by (auto simp: subscriptionGate_def split: option.splits)

lemma found_guild: "Subscription_findOne g db = Some s \<Longrightarrow> s_guildId s = g"
  unfolding Subscription_findOne_def by (drule find_holds) simp

lemma findOne_after_save:
  "Subscription_findOne g db = Some s \<Longrightarrow> s_guildId s' = g \<Longrightarrow>
   Subscription_findOne g (Subscription_save s' db) = Some s'"
  by (simp add: Subscription_findOne_def Subscription_save_def find_replaceFirst)

section \<open>Sequences of runs\<close>

lemma gate_permissions_irrelevant:
  "subscriptions db' = subscriptions db \<Longrightarrow> subscriptionGate z w i db' = subscriptionGate z w i db"
  by (simp add: subscriptionGate_def Subscription_findOne_def)

lemma step_subscriptions:
  "subscriptions (fst (interactionCreate z owner w i db)) = subscriptions db
   \<or> (\<exists>s. subscriptionGate z w i db = Inr s \<and>
        subscriptions (fst (interactionCreate z owner w i db)) =
          replaceFirst (\<lambda>x. s_guildId x = guild_id i)
            (s\<lparr>duration := roundDouble (duration s + opt_days i)\<rparr>) (subscriptions db))"
proof (cases "subscriptionGate z w i db")
  case (Inl r)
  then show ?thesis by (simp add: interactionCreate_def)
next
  case (Inr s)
  then have "s_guildId s = guild_id i"
    by (auto simp: gate_allowed_iff dest: found_guild)
  then show ?thesis
    using Inr
    by (simp add: interactionCreate_def Permission_create_def Permission_findOneAndDelete_def
          Subscription_save_def)
qed

lemma step_keeps_guild:
  assumes "Subscription_findOne g db = Some s"
    and "guild_id i = g \<longrightarrow> dateGreater (clock w) (expiryDate z s)"
  shows "filter (\<lambda>x. s_guildId x = g) (subscriptions (fst (interactionCreate z owner w i db)))
           = filter (\<lambda>x. s_guildId x = g) (subscriptions db)"
proof (cases "guild_id i = g")
  case True
  show ?thesis
  proof (cases "subscriptionGate z w i db")
    case (Inl r)
    then show ?thesis by (simp add: interactionCreate_def)
  next
    case (Inr s')
    then have "\<not> dateGreater (clock w) (expiryDate z s)"
      using assms(1) True by (simp add: gate_allowed_iff)
    then show ?thesis using assms(2) True by simp
  qed
next
  case False
  show ?thesis
    using step_subscriptions [of z owner w i db]
  proof
    assume "subscriptions (fst (interactionCreate z owner w i db)) = subscriptions db"
    then show ?thesis by simp
  next
    assume "\<exists>s. subscriptionGate z w i db = Inr s \<and>
        subscriptions (fst (interactionCreate z owner w i db)) =
          replaceFirst (\<lambda>x. s_guildId x = guild_id i)
            (s\<lparr>duration := roundDouble (duration s + opt_days i)\<rparr>) (subscriptions db)"
    then obtain s' where s': "subscriptionGate z w i db = Inr s'"
      and eq: "subscriptions (fst (interactionCreate z owner w i db)) =
          replaceFirst (\<lambda>x. s_guildId x = guild_id i)
            (s'\<lparr>duration := roundDouble (duration s' + opt_days i)\<rparr>) (subscriptions db)" by blast
    have "s_guildId s' = guild_id i"
      using s' by (auto simp: gate_allowed_iff dest: found_guild)
    then show ?thesis
      using False unfolding eq by (intro filter_replaceFirst_other) auto
  qed
qed

lemma findOne_by_filter:
  "filter (\<lambda>x. s_guildId x = g) (subscriptions db') = filter (\<lambda>x. s_guildId x = g) (subscriptions db)
   \<Longrightarrow> Subscription_findOne g db' = Subscription_findOne g db"
  by (simp add: Subscription_findOne_def find_filter_hd)

lemma run_Cons:
  "run z owner ((w, i) # rest) db =
     (fst (run z owner rest (fst (interactionCreate z owner w i db))),
      snd (interactionCreate z owner w i db) #
        snd (run z owner rest (fst (interactionCreate z owner w i db))))"
  by (simp split: prod.splits)

lemma run_keeps_guild:
  "Subscription_findOne g db = Some s \<Longrightarrow>
   \<forall>e \<in> set evs. guild_id (snd e) = g \<longrightarrow>
      dateGreater (clock (fst e)) (expiryDate z s) \<Longrightarrow>
   filter (\<lambda>x. s_guildId x = g) (subscriptions (fst (run z owner evs db)))
     = filter (\<lambda>x. s_guildId x = g) (subscriptions db)"
proof (induction evs arbitrary: db)
  case Nil
  then show ?case by simp
next
  case (Cons e evs)
  obtain w i where e: "e = (w, i)" by (cases e)
  let ?db = "fst (interactionCreate z owner w i db)"
  have one: "filter (\<lambda>x. s_guildId x = g) (subscriptions ?db)
               = filter (\<lambda>x. s_guildId x = g) (subscriptions db)"
  proof (rule step_keeps_guild [OF Cons.prems(1)])
    show "guild_id i = g \<longrightarrow> dateGreater (clock w) (expiryDate z s)"
      using Cons.prems(2) e by simp
  qed
  have "Subscription_findOne g ?db = Some s"
    using Cons.prems(1) by (simp only: findOne_by_filter [OF one])
  moreover have "\<forall>e \<in> set evs. guild_id (snd e) = g \<longrightarrow>
      dateGreater (clock (fst e)) (expiryDate z s)"
    using Cons.prems(2) by simp
  ultimately have "filter (\<lambda>x. s_guildId x = g) (subscriptions (fst (run z owner evs ?db)))
               = filter (\<lambda>x. s_guildId x = g) (subscriptions ?db)"
    by (rule Cons.IH)
  then show ?case using one by (simp only: e run_Cons fst_conv)
qed

lemma run_replies_expired:
  "Subscription_findOne g db = Some s \<Longrightarrow>
   \<forall>e \<in> set evs. guild_id (snd e) = g \<longrightarrow>
      dateGreater (clock (fst e)) (expiryDate z s) \<Longrightarrow>
   k < length evs \<Longrightarrow> guild_id (snd (evs ! k)) = g \<Longrightarrow> isCommand (snd (evs ! k)) \<Longrightarrow>
   \<not> find_fails (fst (evs ! k)) \<Longrightarrow>
   snd (run z owner evs db) ! k = Some (ephemeralReply subscriptionExpired)"
proof (induction evs arbitrary: db k)
  case Nil
  then show ?case by simp
next
  case (Cons e evs)
  obtain w i where e: "e = (w, i)" by (cases e)
  let ?db = "fst (interactionCreate z owner w i db)"
  have one: "filter (\<lambda>x. s_guildId x = g) (subscriptions ?db)
               = filter (\<lambda>x. s_guildId x = g) (subscriptions db)"
  proof (rule step_keeps_guild [OF Cons.prems(1)])
    show "guild_id i = g \<longrightarrow> dateGreater (clock w) (expiryDate z s)"
      using Cons.prems(2) e by simp
  qed
  have found: "Subscription_findOne g ?db = Some s"
    using Cons.prems(1) by (simp only: findOne_by_filter [OF one])
  have later: "\<forall>e \<in> set evs. guild_id (snd e) = g \<longrightarrow>
      dateGreater (clock (fst e)) (expiryDate z s)"
    using Cons.prems(2) by simp
  show ?case
  proof (cases k)
    case 0
    then have "guild_id i = g" "isCommand i" "\<not> find_fails w"
      "dateGreater (clock w) (expiryDate z s)"
      using Cons.prems(2-6) e by simp_all
    then have "interactionCreate z owner w i db = (db, Some (ephemeralReply subscriptionExpired))"
      using Cons.prems(1) by (simp add: denied_by_gate gate_found)
    then show ?thesis using 0 by (simp only: e run_Cons snd_conv nth_Cons_0)
  next
    case (Suc j)
    have "snd (run z owner evs ?db) ! j = Some (ephemeralReply subscriptionExpired)"
      using Cons.prems(3-6) Suc by (intro Cons.IH [OF found later]) simp_all
    then show ?thesis using Suc by (simp only: e run_Cons snd_conv nth_Cons_Suc)
  qed
qed

lemma never_permissionDenied:
  "commandName i \<noteq> ''extendtime'' \<Longrightarrow> snd (interactionCreate z owner w i db) = Some r \<Longrightarrow>
   content r \<noteq> permissionDenied"
proof (cases "subscriptionGate z w i db")
  case (Inl r')
  then have "content r' \<noteq> permissionDenied"
    by (auto simp: subscriptionGate_def ephemeralReply_def split: if_splits option.splits)
  then show "commandName i \<noteq> ''extendtime'' \<Longrightarrow>
      snd (interactionCreate z owner w i db) = Some r \<Longrightarrow> content r \<noteq> permissionDenied"
    using Inl by (auto simp: interactionCreate_def split: if_splits)
next
  case (Inr s)
  then show "commandName i \<noteq> ''extendtime'' \<Longrightarrow>
      snd (interactionCreate z owner w i db) = Some r \<Longrightarrow> content r \<noteq> permissionDenied"
    by (auto simp: interactionCreate_def plainReply_def split: if_splits)
qed

lemma caller_irrelevant:
  "commandName i \<noteq> ''extendtime'' \<Longrightarrow>
   interactionCreate z owner' w (i\<lparr>user_id := u\<rparr>) db = interactionCreate z owner w i db"
proof -
  assume other: "commandName i \<noteq> ''extendtime''"
  have gate: "subscriptionGate z w (i\<lparr>user_id := u\<rparr>) db = subscriptionGate z w i db"
    by (simp add: subscriptionGate_def)
  show ?thesis
  proof (cases "subscriptionGate z w i db")
    case (Inl r)
    then show ?thesis using gate by (simp add: interactionCreate_def)
  next
    case (Inr s)
    then show ?thesis using gate other by (simp add: interactionCreate_def)
  qed
qed

lemma grant_step:
  assumes "isCommand i" and "commandName i = ''grantaccess''"
    and "subscriptionGate z w i db = Inr s" and "\<not> write_fails w"
  shows "fst (interactionCreate z owner w i db) =
     db\<lparr>permissions := permissions db @
        [\<lparr>p_guildId = guild_id i, userId = opt_user i,
          canAddTime = opt_addtime i, canRemoveTime = opt_removetime i\<rparr>]\<rparr>"
  using assms by (simp add: interactionCreate_def Permission_create_def)

lemma never_invalidParameters:
  "snd (interactionCreate z owner w i db) = Some r \<Longrightarrow> content r \<noteq> invalidParameters"
proof (cases "subscriptionGate z w i db")
  case (Inl r')
  then have "content r' \<noteq> invalidParameters"
    by (auto simp: subscriptionGate_def ephemeralReply_def split: if_splits option.splits)
  then show "snd (interactionCreate z owner w i db) = Some r \<Longrightarrow> content r \<noteq> invalidParameters"
    using Inl by (auto simp: interactionCreate_def split: if_splits)
next
  case (Inr s)
  then show "snd (interactionCreate z owner w i db) = Some r \<Longrightarrow> content r \<noteq> invalidParameters"
    by (auto simp: interactionCreate_def plainReply_def ephemeralReply_def split: if_splits)
qed

lemma joins_count:
  "length (subscriptionsOf g (joins js db)) = length (subscriptionsOf g db) + successfulJoins g js"
proof (induction js arbitrary: db)
  case Nil
  then show ?case by (simp add: successfulJoins_def)
next
  case (Cons j js)
  obtain w g' where j: "j = (w, g')" by (cases j)
  have "length (subscriptionsOf g (guildCreate w g' db)) =
      length (subscriptionsOf g db) + (if g' = g \<and> \<not> write_fails w then 1 else 0)"
    by (simp add: subscriptionsOf_def guildCreate_def Subscription_create_def)
  then show ?case
    by (simp add: j Cons.IH successfulJoins_def)
qed

lemma find_append_Some: "find P xs = Some x \<Longrightarrow> find P (xs @ ys) = Some x"
  by (induction xs) (auto split: if_splits)

lemma joins_keep_first:
  "Subscription_findOne g db = Some s \<Longrightarrow> Subscription_findOne g (joins js db) = Some s"
proof (induction js arbitrary: db)
  case Nil
  then show ?case by simp
next
  case (Cons j js)
  obtain w g' where j: "j = (w, g')" by (cases j)
  have "Subscription_findOne g (guildCreate w g' db) = Some s"
    using Cons.prems
    by (simp add: Subscription_findOne_def guildCreate_def Subscription_create_def find_append_Some)
  then have "Subscription_findOne g (joins js (guildCreate w g' db)) = Some s"
    by (rule Cons.IH)
  then show ?case by (simp add: j)
qed

section \<open>The claims\<close>

text \<open>
  C1 as claimed fails: \<open>grantaccess\<close> by a caller who is not the owner is not denied and
  creates the permission record, and \<open>revokeaccess\<close> by such a caller deletes it.
\<close>

theorem grant_revoke_owner_only_counterexample:
  "''u1'' \<noteq> ''owner''
   \<and> interactionCreate utc ''owner'' (calm 5) (request ''grantaccess'' ''u1'' ''g1'') store30
       = (storeGranted, Some (plainReply AccessGranted))
   \<and> plainReply AccessGranted \<noteq> ephemeralReply permissionDenied
   \<and> permissions storeGranted \<noteq> permissions store30
   \<and> interactionCreate utc ''owner'' (calm 5) (request ''revokeaccess'' ''u1'' ''g1'') storeGranted
       = (store30, Some (plainReply AccessRevoked))"
  by (simp add: store30_def calm_def request_def storeGranted_def interactionCreate_def
        subscriptionGate_def Subscription_findOne_def expiryDate_def setDatePlus_def TimeClip_def LocalTime_def UTC_def utc_def
        dateGreater_def msPerDay_def
        Permission_create_def Permission_findOneAndDelete_def plainReply_def ephemeralReply_def)

text \<open>
  C1, amended. \<open>grantaccess\<close> and \<open>revokeaccess\<close> have no owner check. With the gate
  passed and the write succeeding, \<open>grantaccess\<close> by any caller inserts the permission
  record and \<open>revokeaccess\<close> by any caller deletes the first record of the pair. In every
  state the outcome of the two commands is the same for every caller id and every configured
  owner id, and their reply is never \<open>permissionDenied\<close>.
\<close>

theorem grant_revoke_any_caller:
  "(isCommand i \<and> subscriptionGate z w i db = Inr s \<and> \<not> write_fails w
      \<and> commandName i = ''grantaccess'' \<longrightarrow>
        interactionCreate z owner w i db =
          (Permission_create \<lparr>p_guildId = guild_id i, userId = opt_user i,
             canAddTime = opt_addtime i, canRemoveTime = opt_removetime i\<rparr> db,
           Some (plainReply AccessGranted)))
   \<and> (isCommand i \<and> subscriptionGate z w i db = Inr s \<and> \<not> write_fails w
      \<and> commandName i = ''revokeaccess'' \<longrightarrow>
        interactionCreate z owner w i db =
          (Permission_findOneAndDelete (guild_id i) (opt_user i) db,
           Some (plainReply AccessRevoked)))
   \<and> (commandName i = ''grantaccess'' \<or> commandName i = ''revokeaccess'' \<longrightarrow>
        interactionCreate z owner' w (i\<lparr>user_id := u\<rparr>) db = interactionCreate z owner w i db
        \<and> (\<forall>r. snd (interactionCreate z owner w i db) = Some r \<longrightarrow> content r \<noteq> permissionDenied))"
proof -
  have grant: "isCommand i \<and> subscriptionGate z w i db = Inr s \<and> \<not> write_fails w
      \<and> commandName i = ''grantaccess'' \<longrightarrow>
        interactionCreate z owner w i db =
          (Permission_create \<lparr>p_guildId = guild_id i, userId = opt_user i,
             canAddTime = opt_addtime i, canRemoveTime = opt_removetime i\<rparr> db,
           Some (plainReply AccessGranted))"
    by (simp add: interactionCreate_def)
  have revoke: "isCommand i \<and> subscriptionGate z w i db = Inr s \<and> \<not> write_fails w
      \<and> commandName i = ''revokeaccess'' \<longrightarrow>
        interactionCreate z owner w i db =
          (Permission_findOneAndDelete (guild_id i) (opt_user i) db,
           Some (plainReply AccessRevoked))"
    by (simp add: interactionCreate_def)
  have other: "commandName i \<noteq> ''extendtime''"
    if "commandName i = ''grantaccess'' \<or> commandName i = ''revokeaccess''"
    using that by auto
  have free: "commandName i = ''grantaccess'' \<or> commandName i = ''revokeaccess'' \<longrightarrow>
        interactionCreate z owner' w (i\<lparr>user_id := u\<rparr>) db = interactionCreate z owner w i db
        \<and> (\<forall>r. snd (interactionCreate z owner w i db) = Some r \<longrightarrow> content r \<noteq> permissionDenied)"
    using other caller_irrelevant never_permissionDenied by blast
  show ?thesis
    by (rule conjI [OF grant conjI [OF revoke free]])
qed

theorem grant_revoke_any_caller_witness:
  "subscriptionGate utc (calm 5) (request ''grantaccess'' ''u1'' ''g1'') store30
      = Inr \<lparr>s_guildId = ''g1'', startDate = 0, duration = 30\<rparr>
   \<and> interactionCreate utc ''owner'' (calm 5) (request ''grantaccess'' ''u1'' ''g1'') store30
      = (storeGranted, Some (plainReply AccessGranted))
   \<and> interactionCreate utc ''owner'' (calm 5) (request ''revokeaccess'' ''u1'' ''g1'') storeGranted
      = (store30, Some (plainReply AccessRevoked))"
proof -
  let ?s = "\<lparr>s_guildId = ''g1'', startDate = 0, duration = 30\<rparr>"
  have g1: "subscriptionGate utc (calm 5) (request ''grantaccess'' ''u1'' ''g1'') store30 = Inr ?s"
    by (simp add: store30_def calm_def request_def subscriptionGate_def
          Subscription_findOne_def expiryDate_def setDatePlus_def TimeClip_def LocalTime_def UTC_def utc_def
        dateGreater_def msPerDay_def)
  have g2: "subscriptionGate utc (calm 5) (request ''revokeaccess'' ''u1'' ''g1'') storeGranted = Inr ?s"
    by (simp add: storeGranted_def calm_def request_def subscriptionGate_def
          Subscription_findOne_def expiryDate_def setDatePlus_def TimeClip_def LocalTime_def UTC_def utc_def
        dateGreater_def msPerDay_def)
  have a: "interactionCreate utc ''owner'' (calm 5) (request ''grantaccess'' ''u1'' ''g1'') store30
      = (storeGranted, Some (plainReply AccessGranted))"
    using g1 grant_revoke_any_caller [where i = "request ''grantaccess'' ''u1'' ''g1''"
        and w = "calm 5" and db = store30 and s = ?s and owner = "''owner''" and z = utc]
    by (simp add: store30_def calm_def request_def storeGranted_def Permission_create_def)
  have b: "interactionCreate utc ''owner'' (calm 5) (request ''revokeaccess'' ''u1'' ''g1'') storeGranted
      = (store30, Some (plainReply AccessRevoked))"
    using g2 grant_revoke_any_caller [where i = "request ''revokeaccess'' ''u1'' ''g1''"
        and w = "calm 5" and db = storeGranted and s = ?s and owner = "''owner''" and z = utc]
    by (simp add: store30_def calm_def request_def storeGranted_def Permission_findOneAndDelete_def)
  show ?thesis by (rule conjI [OF g1 conjI [OF a b]])
qed

text \<open>
  C2 as claimed fails: two grants for the same pair leave two permission records.
\<close>

theorem grant_upsert_counterexample:
  "permissions (fst (run utc ''owner''
       [(calm 5, grantRequest True False), (calm 6, grantRequest False True)] store30))
     = [\<lparr>p_guildId = ''g1'', userId = ''u9'', canAddTime = True, canRemoveTime = False\<rparr>,
        \<lparr>p_guildId = ''g1'', userId = ''u9'', canAddTime = False, canRemoveTime = True\<rparr>]
   \<and> length (permissionsOf ''g1'' ''u9'' (fst (run utc ''owner''
       [(calm 5, grantRequest True False), (calm 6, grantRequest False True)] store30))) = 2"
  by (simp add: store30_def calm_def request_def grantRequest_def interactionCreate_def
        subscriptionGate_def Subscription_findOne_def expiryDate_def setDatePlus_def TimeClip_def LocalTime_def UTC_def utc_def
        dateGreater_def msPerDay_def
        Permission_create_def permissionsOf_def)

text \<open>
  C2, amended. \<open>grantaccess\<close> is an insert: a successful grant appends one record to the
  permissions and changes no record that was there, so the pair has one record more after
  each grant; two successful grants in a row append their two records in order.
\<close>

theorem grant_always_inserts:
  assumes "isCommand i" and "commandName i = ''grantaccess''"
    and "subscriptionGate z w i db = Inr s" and "\<not> write_fails w"
  shows "permissions (fst (interactionCreate z owner w i db)) =
      permissions db @ [\<lparr>p_guildId = guild_id i, userId = opt_user i,
                          canAddTime = opt_addtime i, canRemoveTime = opt_removetime i\<rparr>]
    \<and> subscriptions (fst (interactionCreate z owner w i db)) = subscriptions db
    \<and> length (permissionsOf (guild_id i) (opt_user i) (fst (interactionCreate z owner w i db)))
        = Suc (length (permissionsOf (guild_id i) (opt_user i) db))
    \<and> (isCommand i' \<and> commandName i' = ''grantaccess'' \<and> subscriptionGate z w' i' db = Inr s'
         \<and> \<not> write_fails w' \<longrightarrow>
        permissions (fst (run z owner [(w, i), (w', i')] db)) =
          permissions db @
            [\<lparr>p_guildId = guild_id i, userId = opt_user i,
              canAddTime = opt_addtime i, canRemoveTime = opt_removetime i\<rparr>,
             \<lparr>p_guildId = guild_id i', userId = opt_user i',
              canAddTime = opt_addtime i', canRemoveTime = opt_removetime i'\<rparr>])"
proof -
  let ?db = "fst (interactionCreate z owner w i db)"
  note one = grant_step [OF assms, where owner = owner]
  have perms: "permissions ?db =
      permissions db @ [\<lparr>p_guildId = guild_id i, userId = opt_user i,
                          canAddTime = opt_addtime i, canRemoveTime = opt_removetime i\<rparr>]"
    by (simp add: one)
  have subs: "subscriptions ?db = subscriptions db"
    by (simp add: one)
  have count: "length (permissionsOf (guild_id i) (opt_user i) ?db)
        = Suc (length (permissionsOf (guild_id i) (opt_user i) db))"
    by (simp add: permissionsOf_def perms)
  have two: "permissions (fst (run z owner [(w, i), (w', i')] db)) =
          permissions db @
            [\<lparr>p_guildId = guild_id i, userId = opt_user i,
              canAddTime = opt_addtime i, canRemoveTime = opt_removetime i\<rparr>,
             \<lparr>p_guildId = guild_id i', userId = opt_user i',
              canAddTime = opt_addtime i', canRemoveTime = opt_removetime i'\<rparr>]"
    if second: "isCommand i'" "commandName i' = ''grantaccess''"
      "subscriptionGate z w' i' db = Inr s'" "\<not> write_fails w'"
  proof -
    have "subscriptionGate z w' i' ?db = Inr s'"
      using second(3) by (simp only: gate_permissions_irrelevant [OF subs])
    then have "fst (interactionCreate z owner w' i' ?db) =
        ?db\<lparr>permissions := permissions ?db @
          [\<lparr>p_guildId = guild_id i', userId = opt_user i',
            canAddTime = opt_addtime i', canRemoveTime = opt_removetime i'\<rparr>]\<rparr>"
      using second by (intro grant_step) simp_all
    then show ?thesis
      by (simp only: run_Cons run.simps fst_conv) (simp add: perms)
  qed
  from perms subs count two show ?thesis by blast
qed

theorem grant_always_inserts_witness:
  "subscriptionGate utc (calm 5) (grantRequest True False) store30
      = Inr \<lparr>s_guildId = ''g1'', startDate = 0, duration = 30\<rparr>
   \<and> subscriptionGate utc (calm 6) (grantRequest False True) store30
      = Inr \<lparr>s_guildId = ''g1'', startDate = 0, duration = 30\<rparr>
   \<and> permissions (fst (interactionCreate utc ''owner'' (calm 5) (grantRequest True False) store30))
      = [\<lparr>p_guildId = ''g1'', userId = ''u9'', canAddTime = True, canRemoveTime = False\<rparr>]
   \<and> permissions (fst (run utc ''owner''
        [(calm 5, grantRequest True False), (calm 6, grantRequest False True)] store30))
      = [\<lparr>p_guildId = ''g1'', userId = ''u9'', canAddTime = True, canRemoveTime = False\<rparr>,
         \<lparr>p_guildId = ''g1'', userId = ''u9'', canAddTime = False, canRemoveTime = True\<rparr>]"
proof -
  let ?s = "\<lparr>s_guildId = ''g1'', startDate = 0, duration = 30\<rparr>"
  have g1: "subscriptionGate utc (calm 5) (grantRequest True False) store30 = Inr ?s"
    by (simp add: store30_def calm_def request_def grantRequest_def subscriptionGate_def
          Subscription_findOne_def expiryDate_def setDatePlus_def TimeClip_def LocalTime_def UTC_def utc_def
        dateGreater_def msPerDay_def)
  have g2: "subscriptionGate utc (calm 6) (grantRequest False True) store30 = Inr ?s"
    by (simp add: store30_def calm_def request_def grantRequest_def subscriptionGate_def
          Subscription_findOne_def expiryDate_def setDatePlus_def TimeClip_def LocalTime_def UTC_def utc_def
        dateGreater_def msPerDay_def)
  have c: "isCommand (grantRequest a r)" "commandName (grantRequest a r) = ''grantaccess''"
    "\<not> write_fails (calm t)" for a r t
    by (simp_all add: calm_def request_def grantRequest_def)
  note t = grant_always_inserts [OF c(1) c(2) g1 c(3), where owner = "''owner''"
      and i' = "grantRequest False True" and w' = "calm 6" and s' = ?s]
  have a: "permissions (fst (interactionCreate utc ''owner'' (calm 5) (grantRequest True False) store30))
      = [\<lparr>p_guildId = ''g1'', userId = ''u9'', canAddTime = True, canRemoveTime = False\<rparr>]"
    using t by (simp add: store30_def calm_def request_def grantRequest_def)
  have b: "permissions (fst (run utc ''owner''
        [(calm 5, grantRequest True False), (calm 6, grantRequest False True)] store30))
      = [\<lparr>p_guildId = ''g1'', userId = ''u9'', canAddTime = True, canRemoveTime = False\<rparr>,
         \<lparr>p_guildId = ''g1'', userId = ''u9'', canAddTime = False, canRemoveTime = True\<rparr>]"
  proof -
    have "permissions (fst (run utc ''owner''
        [(calm 5, grantRequest True False), (calm 6, grantRequest False True)] store30))
      = permissions store30 @
            [\<lparr>p_guildId = guild_id (grantRequest True False), userId = opt_user (grantRequest True False),
              canAddTime = opt_addtime (grantRequest True False),
              canRemoveTime = opt_removetime (grantRequest True False)\<rparr>,
             \<lparr>p_guildId = guild_id (grantRequest False True), userId = opt_user (grantRequest False True),
              canAddTime = opt_addtime (grantRequest False True),
              canRemoveTime = opt_removetime (grantRequest False True)\<rparr>]"
      using t c g2 by blast
    then show ?thesis by (simp add: grantRequest_def request_def store30_def)
  qed
  show ?thesis by (rule conjI [OF g1 conjI [OF g2 conjI [OF a b]]])
qed

text \<open>
  C3 as claimed fails: the owner's \<open>extendtime\<close> with -5 days is not rejected and takes the
  duration from 30 to 25, and with 0 days it is answered with the confirmation. (At a
  duration of 9007199254740994 days, which one \<open>extendtime\<close> of the owner reaches, -1 day
  takes the duration to 9007199254740992: the sum is rounded to a double.)
\<close>

theorem extend_validation_counterexample:
  "interactionCreate utc ''owner'' (calm 5) (extendRequest (- 5)) store30
     = (\<lparr>permissions = [],
          subscriptions = [\<lparr>s_guildId = ''g1'', startDate = 0, duration = 25\<rparr>]\<rparr>,
        Some (plainReply (Extended (- 5))))
   \<and> interactionCreate utc ''owner'' (calm 5) (extendRequest 0) store30
     = (store30, Some (plainReply (Extended 0)))
   \<and> interactionCreate utc ''owner'' (calm 5) (extendRequest 9007199254740964) store30
     = (storeHuger, Some (plainReply (Extended 9007199254740964)))
   \<and> interactionCreate utc ''owner'' (calm 6) (extendRequest (- 1)) storeHuger
     = (storeHuge, Some (plainReply (Extended (- 1))))"
  by (simp add: store30_def storeHuge_def storeHuger_def calm_def request_def extendRequest_def
        interactionCreate_def subscriptionGate_def Subscription_findOne_def expiryDate_def
        setDatePlus_def TimeClip_def LocalTime_def UTC_def utc_def dateGreater_def msPerDay_def
        Subscription_save_def plainReply_def roundDouble_exact roundDouble_even
        roundDouble_tie_up)

text \<open>
  C3, amended. \<open>extendtime\<close> does not validate the number of days. For the owner, with the
  gate passed and the save succeeding, a number of days that is zero or negative is added
  to the duration like any other and confirmed: the duration becomes the double nearest to
  the sum, which is the sum itself when its magnitude is at most \<open>2 ^ 53\<close>. No reply of the
  handler is \<open>invalidParameters\<close>.
\<close>

theorem extendtime_no_validation:
  "(isCommand i \<and> commandName i = ''extendtime'' \<and> user_id i = owner
      \<and> subscriptionGate z w i db = Inr s \<and> \<not> write_fails w \<and> opt_days i \<le> 0 \<longrightarrow>
        interactionCreate z owner w i db =
          (Subscription_save (s\<lparr>duration := roundDouble (duration s + opt_days i)\<rparr>) db,
           Some (plainReply (Extended (opt_days i))))
        \<and> map_option duration
              (Subscription_findOne (guild_id i) (fst (interactionCreate z owner w i db)))
            = Some (roundDouble (duration s + opt_days i))
        \<and> (\<bar>duration s + opt_days i\<bar> \<le> 9007199254740992 \<longrightarrow>
             map_option duration
               (Subscription_findOne (guild_id i) (fst (interactionCreate z owner w i db)))
             = Some (duration s + opt_days i)))
   \<and> (\<forall>r. snd (interactionCreate z owner w i db) = Some r \<longrightarrow> content r \<noteq> invalidParameters)"
proof -
  have applied: "interactionCreate z owner w i db =
          (Subscription_save (s\<lparr>duration := roundDouble (duration s + opt_days i)\<rparr>) db,
           Some (plainReply (Extended (opt_days i))))
        \<and> map_option duration
              (Subscription_findOne (guild_id i) (fst (interactionCreate z owner w i db)))
            = Some (roundDouble (duration s + opt_days i))
        \<and> (\<bar>duration s + opt_days i\<bar> \<le> 9007199254740992 \<longrightarrow>
             map_option duration
               (Subscription_findOne (guild_id i) (fst (interactionCreate z owner w i db)))
             = Some (duration s + opt_days i))"
    if h: "isCommand i" "commandName i = ''extendtime''" "user_id i = owner"
      "subscriptionGate z w i db = Inr s" "\<not> write_fails w"
  proof -
    have found: "Subscription_findOne (guild_id i) db = Some s"
      using h(4) by (simp add: gate_allowed_iff)
    have r: "interactionCreate z owner w i db =
          (Subscription_save (s\<lparr>duration := roundDouble (duration s + opt_days i)\<rparr>) db,
           Some (plainReply (Extended (opt_days i))))"
      using h by (simp add: interactionCreate_def)
    have "Subscription_findOne (guild_id i)
            (Subscription_save (s\<lparr>duration := roundDouble (duration s + opt_days i)\<rparr>) db) =
          Some (s\<lparr>duration := roundDouble (duration s + opt_days i)\<rparr>)"
      using found by (rule findOne_after_save) (simp add: found_guild [OF found])
    then have after: "map_option duration
              (Subscription_findOne (guild_id i) (fst (interactionCreate z owner w i db)))
            = Some (roundDouble (duration s + opt_days i))"
      by (simp add: r)
    have exact: "\<bar>duration s + opt_days i\<bar> \<le> 9007199254740992 \<longrightarrow>
             map_option duration
               (Subscription_findOne (guild_id i) (fst (interactionCreate z owner w i db)))
             = Some (duration s + opt_days i)"
      by (simp add: after roundDouble_exact)
    show ?thesis by (rule conjI [OF r conjI [OF after exact]])
  qed
  have never: "\<forall>r. snd (interactionCreate z owner w i db) = Some r \<longrightarrow>
      content r \<noteq> invalidParameters"
    using never_invalidParameters by blast
  from applied never show ?thesis by blast
qed

theorem extendtime_no_validation_witness:
  "subscriptionGate utc (calm 5) (extendRequest (- 5)) store30
      = Inr \<lparr>s_guildId = ''g1'', startDate = 0, duration = 30\<rparr>
   \<and> opt_days (extendRequest (- 5)) \<le> 0
   \<and> interactionCreate utc ''owner'' (calm 5) (extendRequest (- 5)) store30
     = (\<lparr>permissions = [],
          subscriptions = [\<lparr>s_guildId = ''g1'', startDate = 0, duration = 25\<rparr>]\<rparr>,
        Some (plainReply (Extended (- 5))))"
proof -
  let ?s = "\<lparr>s_guildId = ''g1'', startDate = 0, duration = 30\<rparr>"
  have g: "subscriptionGate utc (calm 5) (extendRequest (- 5)) store30 = Inr ?s"
    by (simp add: store30_def calm_def request_def extendRequest_def subscriptionGate_def
          Subscription_findOne_def expiryDate_def setDatePlus_def TimeClip_def LocalTime_def
          UTC_def utc_def dateGreater_def msPerDay_def)
  have d: "opt_days (extendRequest (- 5)) \<le> 0"
    by (simp add: request_def extendRequest_def)
  have "interactionCreate utc ''owner'' (calm 5) (extendRequest (- 5)) store30 =
          (Subscription_save
             (?s\<lparr>duration := roundDouble (duration ?s + opt_days (extendRequest (- 5)))\<rparr>)
             store30,
           Some (plainReply (Extended (opt_days (extendRequest (- 5))))))"
    using g d extendtime_no_validation [where i = "extendRequest (- 5)" and owner = "''owner''"
        and w = "calm 5" and db = store30 and s = ?s and z = utc]
    by (simp add: calm_def request_def extendRequest_def)
  then have r: "interactionCreate utc ''owner'' (calm 5) (extendRequest (- 5)) store30
     = (\<lparr>permissions = [],
          subscriptions = [\<lparr>s_guildId = ''g1'', startDate = 0, duration = 25\<rparr>]\<rparr>,
        Some (plainReply (Extended (- 5))))"
    by (simp add: store30_def calm_def request_def extendRequest_def Subscription_save_def
          roundDouble_exact)
  show ?thesis by (rule conjI [OF g conjI [OF d r]])
qed

text \<open>
  C4 as claimed fails: two join notifications for one guild leave two subscriptions.
\<close>

theorem bootstrap_idempotent_counterexample:
  "subscriptions (joins [(calm 1, ''g1''), (calm 2, ''g1'')] emptyStore)
     = [\<lparr>s_guildId = ''g1'', startDate = 1, duration = 0\<rparr>,
        \<lparr>s_guildId = ''g1'', startDate = 2, duration = 0\<rparr>]
   \<and> length (subscriptionsOf ''g1'' (joins [(calm 1, ''g1''), (calm 2, ''g1'')] emptyStore)) = 2"
  by (simp add: emptyStore_def calm_def guildCreate_def Subscription_create_def subscriptionsOf_def)

text \<open>
  C4, amended. A join notification whose write succeeds inserts a subscription of duration
  0 that starts at the current time, whether or not the guild has one; after a sequence of
  notifications the guild has one subscription more for each of its notifications whose
  write succeeded, and a subscription that was the first of its guild is still the one a
  lookup returns.
\<close>

theorem guildCreate_always_inserts:
  "(\<not> write_fails w \<longrightarrow>
      guildCreate w g db =
        db\<lparr>subscriptions := subscriptions db @
             [\<lparr>s_guildId = g, startDate = clock w, duration = 0\<rparr>]\<rparr>
      \<and> length (subscriptionsOf g (guildCreate w g db)) = Suc (length (subscriptionsOf g db)))
   \<and> length (subscriptionsOf g (joins js db))
       = length (subscriptionsOf g db) + successfulJoins g js
   \<and> (Subscription_findOne g db = Some s \<longrightarrow> Subscription_findOne g (joins js db) = Some s)"
proof -
  have one: "\<not> write_fails w \<longrightarrow>
      guildCreate w g db =
        db\<lparr>subscriptions := subscriptions db @
             [\<lparr>s_guildId = g, startDate = clock w, duration = 0\<rparr>]\<rparr>
      \<and> length (subscriptionsOf g (guildCreate w g db)) = Suc (length (subscriptionsOf g db))"
    by (simp add: guildCreate_def Subscription_create_def subscriptionsOf_def)
  have first: "Subscription_findOne g db = Some s \<longrightarrow>
      Subscription_findOne g (joins js db) = Some s"
    by (simp add: joins_keep_first)
  show ?thesis
    by (rule conjI [OF one conjI [OF joins_count first]])
qed

theorem guildCreate_always_inserts_witness:
  "guildCreate (calm 2) ''g1'' store30
     = \<lparr>permissions = [],
        subscriptions = [\<lparr>s_guildId = ''g1'', startDate = 0, duration = 30\<rparr>,
                         \<lparr>s_guildId = ''g1'', startDate = 2, duration = 0\<rparr>]\<rparr>
   \<and> length (subscriptionsOf ''g1'' (guildCreate (calm 2) ''g1'' store30)) = 2
   \<and> Subscription_findOne ''g1'' (joins [(calm 2, ''g1'')] store30)
      = Some \<lparr>s_guildId = ''g1'', startDate = 0, duration = 30\<rparr>"
proof -
  let ?s = "\<lparr>s_guildId = ''g1'', startDate = 0, duration = 30\<rparr>"
  note t = guildCreate_always_inserts [of "calm 2" "''g1''" store30 "[(calm 2, ''g1'')]" ?s]
  have ok: "\<not> write_fails (calm 2)" by (simp add: calm_def)
  have found: "Subscription_findOne ''g1'' store30 = Some ?s"
    by (simp add: Subscription_findOne_def store30_def)
  have n: "length (subscriptionsOf ''g1'' store30) = 1"
    by (simp add: subscriptionsOf_def store30_def)
  have a: "guildCreate (calm 2) ''g1'' store30
     = \<lparr>permissions = [],
        subscriptions = [?s, \<lparr>s_guildId = ''g1'', startDate = 2, duration = 0\<rparr>]\<rparr>"
    using t ok by (simp add: store30_def calm_def)
  have b: "length (subscriptionsOf ''g1'' (guildCreate (calm 2) ''g1'' store30)) = 2"
  proof -
    have "length (subscriptionsOf ''g1'' (guildCreate (calm 2) ''g1'' store30))
        = Suc (length (subscriptionsOf ''g1'' store30))"
      using t ok by blast
    then show ?thesis by (simp only: n)
  qed
  have c: "Subscription_findOne ''g1'' (joins [(calm 2, ''g1'')] store30) = Some ?s"
    using t found by blast
  show ?thesis by (rule conjI [OF a conjI [OF b c]])
qed

text \<open>
  C5 as claimed fails: with a duration of -100000001 days, which one \<open>extendtime\<close> of the
  owner reaches, the start date plus the duration is out of the range of a \<open>Date\<close>, the
  expiry date is the Invalid Date, and a command long after that instant passes the gate.
  (And in a zone where daylight saving time begins between the start and the expiry, the
  expiry date is an hour before the start date plus the duration times 86400000 ms: a
  command at exactly that sum is answered with \<open>subscriptionExpired\<close>.)
\<close>

theorem expiry_boundary_counterexample:
  "interactionCreate utc ''owner'' (calm 5) (extendRequest (- 100000031)) store30
     = (storeNegative, Some (plainReply (Extended (- 100000031))))
   \<and> (0::int) + (- 100000001) * 86400000 < 6
   \<and> expiryDate utc \<lparr>s_guildId = ''g1'', startDate = 0, duration = - 100000001\<rparr> = None
   \<and> subscriptionGate utc (calm 6) (request ''checksubscription'' ''u1'' ''g1'') storeNegative
     = Inr \<lparr>s_guildId = ''g1'', startDate = 0, duration = - 100000001\<rparr>
   \<and> interactionCreate utc ''owner'' (calm 6) (request ''checksubscription'' ''u1'' ''g1'')
       storeNegative
     = (storeNegative, Some (plainReply (Remaining None)))
   \<and> (1709996400000::int) + 30 * 86400000 = 1712588400000
   \<and> interactionCreate eastern ''owner'' (calm 1712588400000)
       (request ''checksubscription'' ''u1'' ''g1'') storeSpring
     = (storeSpring, Some (ephemeralReply subscriptionExpired))"
  by (simp add: store30_def storeNegative_def storeSpring_def eastern_def calm_def request_def
        extendRequest_def
        interactionCreate_def subscriptionGate_def Subscription_findOne_def expiryDate_def
        setDatePlus_def TimeClip_def LocalTime_def UTC_def utc_def dateGreater_def msPerDay_def
        Subscription_save_def plainReply_def ephemeralReply_def remainingDays_def
        roundDouble_exact)

text \<open>
  C5, amended. Where the expiry date is a valid date, the boundary is inclusive: a command
  at exactly the expiry instant passes the gate (and is not answered with
  \<open>subscriptionExpired\<close>; \<open>checksubscription\<close> reports 0 days), while a command at any
  instant after it is answered with \<open>subscriptionExpired\<close>. The expiry instant is the start
  date moved by the duration in calendar days of the process's time zone, which is the
  start date plus the duration times 86400000 ms when the zone's offset is the same at both
  ends.
\<close>

theorem expiry_boundary_inclusive:
  assumes "\<not> find_fails w" and "Subscription_findOne (guild_id i) db = Some s"
    and "expiryDate z s = Some e"
  shows "(clock w = e \<longrightarrow> subscriptionGate z w i db = Inr s)
    \<and> (clock w > e \<longrightarrow>
         subscriptionGate z w i db = Inl (ephemeralReply subscriptionExpired))
    \<and> (isCommand i \<and> clock w > e \<longrightarrow>
         interactionCreate z owner w i db = (db, Some (ephemeralReply subscriptionExpired)))
    \<and> (isCommand i \<and> clock w = e \<longrightarrow>
         snd (interactionCreate z owner w i db) \<noteq> Some (ephemeralReply subscriptionExpired))
    \<and> (isCommand i \<and> clock w = e \<and> commandName i = ''checksubscription'' \<longrightarrow>
         interactionCreate z owner w i db = (db, Some (plainReply (Remaining (Some 0)))))
    \<and> (offsetAtLocal z (startDate s + offsetAtUTC z (startDate s) + duration s * 86400000)
          = offsetAtUTC z (startDate s) \<longrightarrow>
         e = startDate s + duration s * 86400000)"
proof -
  have g: "subscriptionGate z w i db =
      (if clock w > e then Inl (ephemeralReply subscriptionExpired) else Inr s)"
    using gate_found [OF assms(1,2), of z] by (simp add: assms(3) dateGreater_Some)
  have a: "clock w = e \<longrightarrow> subscriptionGate z w i db = Inr s"
    by (simp add: g)
  have b: "clock w > e \<longrightarrow>
         subscriptionGate z w i db = Inl (ephemeralReply subscriptionExpired)"
    by (simp add: g)
  have c: "isCommand i \<and> clock w > e \<longrightarrow>
         interactionCreate z owner w i db = (db, Some (ephemeralReply subscriptionExpired))"
    using b by (simp add: denied_by_gate)
  have d: "isCommand i \<and> clock w = e \<longrightarrow>
         snd (interactionCreate z owner w i db) \<noteq> Some (ephemeralReply subscriptionExpired)"
    using a by (simp add: interactionCreate_def ephemeralReply_def plainReply_def)
  have f: "isCommand i \<and> clock w = e \<and> commandName i = ''checksubscription'' \<longrightarrow>
         interactionCreate z owner w i db = (db, Some (plainReply (Remaining (Some 0))))"
    using a by (simp add: interactionCreate_def remainingDays_def assms(3) roundDouble_exact)
  have h: "offsetAtLocal z (startDate s + offsetAtUTC z (startDate s) + duration s * 86400000)
          = offsetAtUTC z (startDate s) \<longrightarrow>
         e = startDate s + duration s * 86400000"
    using expiryDate_same_offset [OF assms(3)] by blast
  show ?thesis
    by (rule conjI [OF a conjI [OF b conjI [OF c conjI [OF d conjI [OF f h]]]]])
qed

theorem expiry_boundary_inclusive_witness:
  "Subscription_findOne ''g1'' store30 = Some \<lparr>s_guildId = ''g1'', startDate = 0, duration = 30\<rparr>
   \<and> expiryDate utc \<lparr>s_guildId = ''g1'', startDate = 0, duration = 30\<rparr> = Some 2592000000
   \<and> interactionCreate utc ''owner'' (calm 2592000000)
        (request ''checksubscription'' ''u1'' ''g1'') store30
       = (store30, Some (plainReply (Remaining (Some 0))))
   \<and> interactionCreate utc ''owner'' (calm 2592000001)
        (request ''checksubscription'' ''u1'' ''g1'') store30
       = (store30, Some (ephemeralReply subscriptionExpired))
   \<and> expiryDate eastern \<lparr>s_guildId = ''g1'', startDate = 1709996400000, duration = 30\<rparr>
       = Some 1712584800000
   \<and> interactionCreate eastern ''owner'' (calm 1712584800000)
        (request ''checksubscription'' ''u1'' ''g1'') storeSpring
       = (storeSpring, Some (plainReply (Remaining (Some 0))))
   \<and> interactionCreate eastern ''owner'' (calm 1712584800001)
        (request ''checksubscription'' ''u1'' ''g1'') storeSpring
       = (storeSpring, Some (ephemeralReply subscriptionExpired))"
proof -
  let ?s = "\<lparr>s_guildId = ''g1'', startDate = 0, duration = 30\<rparr>"
  let ?t = "\<lparr>s_guildId = ''g1'', startDate = 1709996400000, duration = 30\<rparr>"
  let ?i = "request ''checksubscription'' ''u1'' ''g1''"
  have calm: "\<not> find_fails (calm t)" "clock (calm t) = t" for t
    by (simp_all add: calm_def)
  have req: "isCommand ?i" "commandName ?i = ''checksubscription''" "guild_id ?i = ''g1''"
    by (simp_all add: request_def)
  have f1: "Subscription_findOne ''g1'' store30 = Some ?s"
    by (simp add: Subscription_findOne_def store30_def)
  have f2: "Subscription_findOne ''g1'' storeSpring = Some ?t"
    by (simp add: Subscription_findOne_def storeSpring_def)
  have e1: "expiryDate utc ?s = Some 2592000000"
    by (simp add: expiryDate_def setDatePlus_def TimeClip_def LocalTime_def UTC_def utc_def
          msPerDay_def)
  have e2: "expiryDate eastern ?t = Some 1712584800000"
    by (simp add: expiryDate_def setDatePlus_def TimeClip_def LocalTime_def UTC_def eastern_def
          msPerDay_def)
  note u = expiry_boundary_inclusive [where z = utc and db = store30 and s = ?s
      and e = 2592000000 and i = ?i and owner = "''owner''"]
  note v = expiry_boundary_inclusive [where z = eastern and db = storeSpring and s = ?t
      and e = 1712584800000 and i = ?i and owner = "''owner''"]
  have a: "interactionCreate utc ''owner'' (calm 2592000000) ?i store30
       = (store30, Some (plainReply (Remaining (Some 0))))"
    using u [where w = "calm 2592000000"] calm req f1 e1 by simp
  have b: "interactionCreate utc ''owner'' (calm 2592000001) ?i store30
       = (store30, Some (ephemeralReply subscriptionExpired))"
    using u [where w = "calm 2592000001"] calm req f1 e1 by simp
  have c: "interactionCreate eastern ''owner'' (calm 1712584800000) ?i storeSpring
       = (storeSpring, Some (plainReply (Remaining (Some 0))))"
    using v [where w = "calm 1712584800000"] calm req f2 e2 by simp
  have d: "interactionCreate eastern ''owner'' (calm 1712584800001) ?i storeSpring
       = (storeSpring, Some (ephemeralReply subscriptionExpired))"
    using v [where w = "calm 1712584800001"] calm req f2 e2 by simp
  show ?thesis
    by (rule conjI [OF f1 conjI [OF e1 conjI [OF a conjI [OF b conjI [OF e2 conjI [OF c d]]]]]])
qed

text \<open>
  C6. On a guild with no subscription document every command is answered with
  \<open>subscriptionNotFound\<close>, and when the subscription lookup throws every command is
  answered with \<open>databaseError\<close>; in both cases the reply is ephemeral, the store is left
  as it was, and no command branch runs.
\<close>

theorem lookup_failure_denies:
  "(isCommand i \<and> \<not> find_fails w \<and> Subscription_findOne (guild_id i) db = None \<longrightarrow>
      interactionCreate z owner w i db = (db, Some (ephemeralReply subscriptionNotFound)))
   \<and> (isCommand i \<and> find_fails w \<longrightarrow>
      interactionCreate z owner w i db = (db, Some (ephemeralReply databaseError)))"
  by (simp add: denied_by_gate gate_find_fails gate_not_found)

theorem lookup_failure_denies_witness:
  "Subscription_findOne ''g1'' emptyStore = None
   \<and> interactionCreate utc ''owner'' (calm 5) (request ''checksubscription'' ''u1'' ''g1'') emptyStore
       = (emptyStore, Some (ephemeralReply subscriptionNotFound))
   \<and> interactionCreate utc ''owner'' ((calm 5)\<lparr>find_fails := True\<rparr>)
         (request ''grantaccess'' ''u1'' ''g1'') store30
       = (store30, Some (ephemeralReply databaseError))"
  using lookup_failure_denies [where i = "request ''checksubscription'' ''u1'' ''g1''"
          and w = "calm 5" and db = emptyStore and owner = "''owner''" and z = utc]
        lookup_failure_denies [where i = "request ''grantaccess'' ''u1'' ''g1''"
          and w = "(calm 5)\<lparr>find_fails := True\<rparr>" and db = store30 and owner = "''owner''"
          and z = utc]
  by (simp add: Subscription_findOne_def emptyStore_def calm_def request_def)

text \<open>
  C7 as claimed fails in three ways. After the expiry the owner check is not reached: a caller
  who is not the owner is answered with \<open>subscriptionExpired\<close>, not \<open>permissionDenied\<close>, and
  the owner's \<open>extendtime\<close> is answered the same and adds nothing. When the save throws, the
  owner's \<open>extendtime\<close> is answered with \<open>databaseError\<close> and adds nothing. And at a
  duration of \<open>2 ^ 53\<close> days, which one \<open>extendtime\<close> of the owner reaches, the owner's
  \<open>extendtime\<close> with 1 day is confirmed and leaves the duration as it was.
\<close>

theorem extendtime_owner_only_counterexample:
  "interactionCreate utc ''owner'' (calm 2592000001) (request ''extendtime'' ''u2'' ''g1'') store30
     = (store30, Some (ephemeralReply subscriptionExpired))
   \<and> ephemeralReply subscriptionExpired \<noteq> ephemeralReply permissionDenied
   \<and> interactionCreate utc ''owner'' (calm 2592000001) (extendRequest 10) store30
     = (store30, Some (ephemeralReply subscriptionExpired))
   \<and> interactionCreate utc ''owner'' ((calm 5)\<lparr>write_fails := True\<rparr>) (extendRequest 10) store30
     = (store30, Some (ephemeralReply databaseError))
   \<and> interactionCreate utc ''owner'' (calm 5) (extendRequest 9007199254740962) store30
     = (storeHuge, Some (plainReply (Extended 9007199254740962)))
   \<and> interactionCreate utc ''owner'' (calm 6) (extendRequest 1) storeHuge
     = (storeHuge, Some (plainReply (Extended 1)))"
  by (simp add: store30_def storeHuge_def calm_def request_def extendRequest_def
        interactionCreate_def subscriptionGate_def Subscription_findOne_def expiryDate_def
        setDatePlus_def TimeClip_def LocalTime_def UTC_def utc_def dateGreater_def msPerDay_def
        Subscription_save_def plainReply_def ephemeralReply_def roundDouble_exact
        roundDouble_tie_up)

text \<open>
  C7, amended. \<open>extendtime\<close> by a caller other than the configured owner never changes the
  store, and once the subscription gate is passed its answer is \<open>permissionDenied\<close>. By the
  owner, with the gate passed and the save succeeding, \<open>extendtime\<close> with N days is confirmed
  and the duration of the guild's subscription becomes the double nearest to the duration
  plus N: it grows by exactly N when the magnitude of the sum is at most \<open>2 ^ 53\<close>.
\<close>

theorem extendtime_owner_only:
  "(commandName i = ''extendtime'' \<and> user_id i \<noteq> owner \<longrightarrow>
      fst (interactionCreate z owner w i db) = db)
   \<and> (isCommand i \<and> commandName i = ''extendtime'' \<and> subscriptionGate z w i db = Inr s
        \<and> user_id i \<noteq> owner \<longrightarrow>
      interactionCreate z owner w i db = (db, Some (ephemeralReply permissionDenied)))
   \<and> (isCommand i \<and> commandName i = ''extendtime'' \<and> subscriptionGate z w i db = Inr s
        \<and> user_id i = owner \<and> \<not> write_fails w \<longrightarrow>
      interactionCreate z owner w i db =
        (Subscription_save (s\<lparr>duration := roundDouble (duration s + opt_days i)\<rparr>) db,
         Some (plainReply (Extended (opt_days i))))
      \<and> Subscription_findOne (guild_id i) (fst (interactionCreate z owner w i db)) =
          Some (s\<lparr>duration := roundDouble (duration s + opt_days i)\<rparr>)
      \<and> (\<bar>duration s + opt_days i\<bar> \<le> 9007199254740992 \<longrightarrow>
           Subscription_findOne (guild_id i) (fst (interactionCreate z owner w i db)) =
             Some (s\<lparr>duration := duration s + opt_days i\<rparr>)))"
proof -
  have unchanged: "commandName i = ''extendtime'' \<and> user_id i \<noteq> owner \<longrightarrow>
      fst (interactionCreate z owner w i db) = db"
    by (simp add: interactionCreate_def split: sum.splits)
  have denied: "interactionCreate z owner w i db = (db, Some (ephemeralReply permissionDenied))"
    if "isCommand i" "commandName i = ''extendtime''" "subscriptionGate z w i db = Inr s"
       "user_id i \<noteq> owner"
    using that by (simp add: interactionCreate_def)
  have extended: "interactionCreate z owner w i db =
        (Subscription_save (s\<lparr>duration := roundDouble (duration s + opt_days i)\<rparr>) db,
         Some (plainReply (Extended (opt_days i))))
      \<and> Subscription_findOne (guild_id i) (fst (interactionCreate z owner w i db)) =
          Some (s\<lparr>duration := roundDouble (duration s + opt_days i)\<rparr>)
      \<and> (\<bar>duration s + opt_days i\<bar> \<le> 9007199254740992 \<longrightarrow>
           Subscription_findOne (guild_id i) (fst (interactionCreate z owner w i db)) =
             Some (s\<lparr>duration := duration s + opt_days i\<rparr>))"
    if "isCommand i" "commandName i = ''extendtime''" "subscriptionGate z w i db = Inr s"
       "user_id i = owner" "\<not> write_fails w"
  proof -
    have found: "Subscription_findOne (guild_id i) db = Some s"
      using that(3) by (simp add: gate_allowed_iff)
    have r: "interactionCreate z owner w i db =
          (Subscription_save (s\<lparr>duration := roundDouble (duration s + opt_days i)\<rparr>) db,
           Some (plainReply (Extended (opt_days i))))"
      using that by (simp add: interactionCreate_def)
    have "Subscription_findOne (guild_id i)
            (Subscription_save (s\<lparr>duration := roundDouble (duration s + opt_days i)\<rparr>) db) =
          Some (s\<lparr>duration := roundDouble (duration s + opt_days i)\<rparr>)"
      using found by (rule findOne_after_save) (simp add: found_guild [OF found])
    then have after: "Subscription_findOne (guild_id i) (fst (interactionCreate z owner w i db)) =
          Some (s\<lparr>duration := roundDouble (duration s + opt_days i)\<rparr>)"
      by (simp add: r)
    have exact: "\<bar>duration s + opt_days i\<bar> \<le> 9007199254740992 \<longrightarrow>
           Subscription_findOne (guild_id i) (fst (interactionCreate z owner w i db)) =
             Some (s\<lparr>duration := duration s + opt_days i\<rparr>)"
      by (simp add: after roundDouble_exact)
    show ?thesis by (rule conjI [OF r conjI [OF after exact]])
  qed
  from unchanged denied extended show ?thesis by blast
qed

theorem extendtime_owner_only_witness:
  "subscriptionGate utc (calm 5) (request ''extendtime'' ''u2'' ''g1'') store30
      = Inr \<lparr>s_guildId = ''g1'', startDate = 0, duration = 30\<rparr>
   \<and> interactionCreate utc ''owner'' (calm 5) (request ''extendtime'' ''u2'' ''g1'') store30
      = (store30, Some (ephemeralReply permissionDenied))
   \<and> interactionCreate utc ''owner'' (calm 5) (request ''extendtime'' ''owner'' ''g1'') store30
      = (\<lparr>permissions = [],
           subscriptions = [\<lparr>s_guildId = ''g1'', startDate = 0, duration = 40\<rparr>]\<rparr>,
         Some (plainReply (Extended 10)))
   \<and> Subscription_findOne ''g1''
        (fst (interactionCreate utc ''owner'' (calm 5) (request ''extendtime'' ''owner'' ''g1'')
           store30))
      = Some \<lparr>s_guildId = ''g1'', startDate = 0, duration = 40\<rparr>"
  using extendtime_owner_only [where i = "request ''extendtime'' ''u2'' ''g1''"
          and owner = "''owner''" and w = "calm 5" and db = store30 and z = utc
          and s = "\<lparr>s_guildId = ''g1'', startDate = 0, duration = 30\<rparr>"]
        extendtime_owner_only [where i = "request ''extendtime'' ''owner'' ''g1''"
          and owner = "''owner''" and w = "calm 5" and db = store30 and z = utc
          and s = "\<lparr>s_guildId = ''g1'', startDate = 0, duration = 30\<rparr>"]
  by (simp add: subscriptionGate_def Subscription_findOne_def Subscription_save_def store30_def
        calm_def request_def expiryDate_def setDatePlus_def TimeClip_def LocalTime_def UTC_def
        utc_def dateGreater_def msPerDay_def roundDouble_exact)

text \<open>
  C8 as claimed fails: with a duration of 100000001 days, which one \<open>extendtime\<close> of the
  owner reaches, the expiry date is the Invalid Date, the gate lets \<open>checksubscription\<close>
  through, and the number of days it reports is NaN.
\<close>

theorem remaining_days_counterexample:
  "interactionCreate utc ''owner'' (calm 5) (extendRequest 99999971) store30
     = (storeForever, Some (plainReply (Extended 99999971)))
   \<and> subscriptionGate utc (calm 6) (request ''checksubscription'' ''u1'' ''g1'') storeForever
     = Inr \<lparr>s_guildId = ''g1'', startDate = 0, duration = 100000001\<rparr>
   \<and> interactionCreate utc ''owner'' (calm 6) (request ''checksubscription'' ''u1'' ''g1'')
       storeForever
     = (storeForever, Some (plainReply (Remaining None)))"
  by (simp add: store30_def storeForever_def calm_def request_def extendRequest_def
        interactionCreate_def subscriptionGate_def Subscription_findOne_def expiryDate_def
        setDatePlus_def TimeClip_def LocalTime_def UTC_def utc_def dateGreater_def msPerDay_def
        Subscription_save_def plainReply_def remainingDays_def roundDouble_exact)

text \<open>
  C8, amended. When the gate lets \<open>checksubscription\<close> through and the expiry date is a
  valid date, the current time is not after the expiry and the number of days reported is
  the ceiling of (expiry - now) / one day, clamped at 0, with the difference rounded to a
  double. When the difference is at most \<open>2 ^ 53\<close> ms, as it is at every current time not
  before the epoch, it is exact: the report is the ceiling of (expiry - now) / one day, the
  clamp does not act, and the ceiling is the whole number computed by integer division.
\<close>

theorem checksubscription_remaining_days:
  assumes "isCommand i" and "commandName i = ''checksubscription''"
    and "subscriptionGate z w i db = Inr s" and "expiryDate z s = Some e"
  shows "interactionCreate z owner w i db =
      (db, Some (plainReply (Remaining (Some
        (max 0 \<lceil>real_of_int (roundDouble (e - clock w)) / 86400000\<rceil>)))))
    \<and> clock w \<le> e
    \<and> (0 \<le> clock w \<longrightarrow> e - clock w \<le> 9007199254740992)
    \<and> (e - clock w \<le> 9007199254740992 \<longrightarrow>
         interactionCreate z owner w i db =
           (db, Some (plainReply (Remaining (Some \<lceil>real_of_int (e - clock w) / 86400000\<rceil>))))
         \<and> 0 \<le> \<lceil>real_of_int (e - clock w) / 86400000\<rceil>
         \<and> \<lceil>real_of_int (e - clock w) / 86400000\<rceil> = - ((clock w - e) div 86400000))"
proof -
  have le: "clock w \<le> e"
    using assms(3,4) by (simp add: gate_allowed_iff dateGreater_Some)
  have reply: "interactionCreate z owner w i db =
      (db, Some (plainReply (Remaining (Some
        (max 0 \<lceil>real_of_int (roundDouble (e - clock w)) / 86400000\<rceil>)))))"
    using assms by (simp add: interactionCreate_def remainingDays_def)
  have exact: "interactionCreate z owner w i db =
           (db, Some (plainReply (Remaining (Some \<lceil>real_of_int (e - clock w) / 86400000\<rceil>))))
         \<and> 0 \<le> \<lceil>real_of_int (e - clock w) / 86400000\<rceil>
         \<and> \<lceil>real_of_int (e - clock w) / 86400000\<rceil> = - ((clock w - e) div 86400000)"
    if small: "e - clock w \<le> 9007199254740992"
  proof -
    have "\<bar>e - clock w\<bar> \<le> 9007199254740992" using le small by simp
    then have same: "roundDouble (e - clock w) = e - clock w" by (rule roundDouble_exact)
    have "0 \<le> real_of_int (e - clock w) / 86400000" using le by simp
    then have nonneg: "0 \<le> \<lceil>real_of_int (e - clock w) / 86400000\<rceil>" by simp
    have r: "interactionCreate z owner w i db =
           (db, Some (plainReply (Remaining (Some \<lceil>real_of_int (e - clock w) / 86400000\<rceil>))))"
      using nonneg by (simp add: reply same)
    have "\<lceil>real_of_int (e - clock w) / real_of_int 86400000\<rceil>
        = - (- (e - clock w) div 86400000)"
      by (rule ceiling_divide_eq_div)
    then have whole: "\<lceil>real_of_int (e - clock w) / 86400000\<rceil> = - ((clock w - e) div 86400000)"
      by simp
    show ?thesis by (rule conjI [OF r conjI [OF nonneg whole]])
  qed
  have "\<bar>e\<bar> \<le> 8640000000000000"
    using assms(4) by (rule expiry_in_range)
  then have recent: "0 \<le> clock w \<longrightarrow> e - clock w \<le> 9007199254740992"
    by linarith
  from reply le recent exact show ?thesis by blast
qed

theorem checksubscription_remaining_days_witness:
  "subscriptionGate utc (calm 1) (request ''checksubscription'' ''u1'' ''g1'') store30
      = Inr \<lparr>s_guildId = ''g1'', startDate = 0, duration = 30\<rparr>
   \<and> expiryDate utc \<lparr>s_guildId = ''g1'', startDate = 0, duration = 30\<rparr> = Some 2592000000
   \<and> interactionCreate utc ''owner'' (calm 1) (request ''checksubscription'' ''u1'' ''g1'') store30
      = (store30, Some (plainReply (Remaining (Some 30))))
   \<and> subscriptionGate utc (calm 86400000) (request ''checksubscription'' ''u1'' ''g1'') store30
      = Inr \<lparr>s_guildId = ''g1'', startDate = 0, duration = 30\<rparr>
   \<and> interactionCreate utc ''owner'' (calm 86400000) (request ''checksubscription'' ''u1'' ''g1'')
        store30
      = (store30, Some (plainReply (Remaining (Some 29))))"
proof -
  let ?s = "\<lparr>s_guildId = ''g1'', startDate = 0, duration = 30\<rparr>"
  let ?i = "request ''checksubscription'' ''u1'' ''g1''"
  have req: "isCommand ?i" "commandName ?i = ''checksubscription''"
    by (simp_all add: request_def)
  have e: "expiryDate utc ?s = Some 2592000000"
    by (simp add: expiryDate_def setDatePlus_def TimeClip_def LocalTime_def UTC_def utc_def
          msPerDay_def)
  have g: "subscriptionGate utc (calm t) ?i store30 = Inr ?s" if "t \<le> 2592000000" for t
    using that
    by (simp add: subscriptionGate_def Subscription_findOne_def store30_def calm_def request_def
          e dateGreater_Some)
  have g1: "subscriptionGate utc (calm 1) ?i store30 = Inr ?s" by (rule g) simp
  have g2: "subscriptionGate utc (calm 86400000) ?i store30 = Inr ?s" by (rule g) simp
  have a: "interactionCreate utc ''owner'' (calm 1) ?i store30
      = (store30, Some (plainReply (Remaining (Some 30))))"
    using checksubscription_remaining_days [OF req g1 e, of "''owner''"]
    by (simp add: calm_def roundDouble_exact)
  have b: "interactionCreate utc ''owner'' (calm 86400000) ?i store30
      = (store30, Some (plainReply (Remaining (Some 29))))"
    using checksubscription_remaining_days [OF req g2 e, of "''owner''"]
    by (simp add: calm_def roundDouble_exact)
  show ?thesis by (rule conjI [OF g1 conjI [OF e conjI [OF a conjI [OF g2 b]]]])
qed

text \<open>
  C9 as claimed fails: under an active subscription \<open>addtime\<close>, \<open>resetplaytime\<close> and
  \<open>removeplaytime\<close> by a caller with no permission record are not denied; the handler
  returns without a reply.
\<close>

theorem permission_gate_counterexample:
  "\<not> hasPermission store30 ''g1'' ''u1''
   \<and> subscriptionGate utc (calm 5) (request ''addtime'' ''u1'' ''g1'') store30
       = Inr \<lparr>s_guildId = ''g1'', startDate = 0, duration = 30\<rparr>
   \<and> interactionCreate utc ''owner'' (calm 5) (request ''addtime'' ''u1'' ''g1'') store30
       = (store30, None)
   \<and> interactionCreate utc ''owner'' (calm 5) (request ''resetplaytime'' ''u1'' ''g1'') store30
       = (store30, None)
   \<and> interactionCreate utc ''owner'' (calm 5) (request ''removeplaytime'' ''u1'' ''g1'') store30
       = (store30, None)"
  by (simp add: store30_def calm_def request_def interactionCreate_def subscriptionGate_def
        Subscription_findOne_def expiryDate_def setDatePlus_def TimeClip_def LocalTime_def UTC_def utc_def
        dateGreater_def msPerDay_def
        hasPermission_def Permission_findOne_def)

text \<open>
  C9, amended. The branches of \<open>addtime\<close>, \<open>resetplaytime\<close> and \<open>removeplaytime\<close> are
  empty: with the gate passed the handler sends no reply, whatever the permission records
  are; in every state these commands leave the store as it was and are never answered with
  \<open>permissionDenied\<close>.
\<close>

theorem gated_commands_are_stubs:
  "(isCommand i \<and> subscriptionGate z w i db = Inr s
      \<and> (commandName i = ''addtime'' \<or> commandName i = ''resetplaytime''
           \<or> commandName i = ''removeplaytime'') \<longrightarrow>
        interactionCreate z owner w i db = (db, None))
   \<and> (commandName i = ''addtime'' \<or> commandName i = ''resetplaytime''
         \<or> commandName i = ''removeplaytime'' \<longrightarrow>
        fst (interactionCreate z owner w i db) = db
        \<and> (\<forall>r. snd (interactionCreate z owner w i db) = Some r \<longrightarrow> content r \<noteq> permissionDenied))"
proof -
  have stub: "isCommand i \<and> subscriptionGate z w i db = Inr s
      \<and> (commandName i = ''addtime'' \<or> commandName i = ''resetplaytime''
           \<or> commandName i = ''removeplaytime'') \<longrightarrow>
        interactionCreate z owner w i db = (db, None)"
    by (auto simp: interactionCreate_def)
  have other: "commandName i \<noteq> ''extendtime''"
    if "commandName i = ''addtime'' \<or> commandName i = ''resetplaytime''
         \<or> commandName i = ''removeplaytime''"
    using that by auto
  have same: "fst (interactionCreate z owner w i db) = db"
    if "commandName i = ''addtime'' \<or> commandName i = ''resetplaytime''
         \<or> commandName i = ''removeplaytime''"
    using that by (cases "subscriptionGate z w i db") (auto simp: interactionCreate_def)
  have never: "commandName i = ''addtime'' \<or> commandName i = ''resetplaytime''
         \<or> commandName i = ''removeplaytime'' \<longrightarrow>
        fst (interactionCreate z owner w i db) = db
        \<and> (\<forall>r. snd (interactionCreate z owner w i db) = Some r \<longrightarrow> content r \<noteq> permissionDenied)"
    using other same never_permissionDenied by blast
  show ?thesis by (rule conjI [OF stub never])
qed

theorem gated_commands_are_stubs_witness:
  "subscriptionGate utc (calm 5) (request ''addtime'' ''u1'' ''g1'') store30
       = Inr \<lparr>s_guildId = ''g1'', startDate = 0, duration = 30\<rparr>
   \<and> interactionCreate utc ''owner'' (calm 5) (request ''addtime'' ''u1'' ''g1'') store30
       = (store30, None)"
proof -
  let ?s = "\<lparr>s_guildId = ''g1'', startDate = 0, duration = 30\<rparr>"
  have g: "subscriptionGate utc (calm 5) (request ''addtime'' ''u1'' ''g1'') store30 = Inr ?s"
    by (simp add: store30_def calm_def request_def subscriptionGate_def
          Subscription_findOne_def expiryDate_def setDatePlus_def TimeClip_def LocalTime_def UTC_def utc_def
        dateGreater_def msPerDay_def)
  have r: "interactionCreate utc ''owner'' (calm 5) (request ''addtime'' ''u1'' ''g1'') store30
       = (store30, None)"
    using g gated_commands_are_stubs [where i = "request ''addtime'' ''u1'' ''g1''"
        and w = "calm 5" and db = store30 and s = ?s and owner = "''owner''" and z = utc]
    by (simp add: request_def)
  show ?thesis by (rule conjI [OF g r])
qed

text \<open>
  C10 as claimed fails: after the owner's \<open>extendtime\<close> with -100000031 days the start date
  plus the duration lies far before the current time, yet the expiry date is the Invalid
  Date, so \<open>grantaccess\<close> goes through and the owner's next \<open>extendtime\<close> changes the
  duration again.
\<close>

theorem expired_trap_counterexample:
  "interactionCreate utc ''owner'' (calm 5) (extendRequest (- 100000031)) store30
     = (storeNegative, Some (plainReply (Extended (- 100000031))))
   \<and> (0::int) + (- 100000001) * 86400000 < 6
   \<and> interactionCreate utc ''owner'' (calm 6) (request ''grantaccess'' ''u1'' ''g1'') storeNegative
     = (\<lparr>permissions =
           [\<lparr>p_guildId = ''g1'', userId = ''u9'', canAddTime = True, canRemoveTime = False\<rparr>],
         subscriptions = [\<lparr>s_guildId = ''g1'', startDate = 0, duration = - 100000001\<rparr>]\<rparr>,
        Some (plainReply AccessGranted))
   \<and> interactionCreate utc ''owner'' (calm 6) (extendRequest 10) storeNegative
     = (\<lparr>permissions = [],
         subscriptions = [\<lparr>s_guildId = ''g1'', startDate = 0, duration = - 99999991\<rparr>]\<rparr>,
        Some (plainReply (Extended 10)))"
  by (simp add: store30_def storeNegative_def calm_def request_def extendRequest_def
        interactionCreate_def subscriptionGate_def Subscription_findOne_def expiryDate_def
        setDatePlus_def TimeClip_def LocalTime_def UTC_def utc_def dateGreater_def msPerDay_def
        Subscription_save_def Permission_create_def plainReply_def roundDouble_exact)

text \<open>
  C10, amended. Once the expiry date of a guild's subscription is a valid date and the
  current time is after it, every command on the guild whose lookup succeeds, \<open>extendtime\<close>
  by the owner included, is answered with \<open>subscriptionExpired\<close> and leaves the store as it
  was; and over any sequence of commands, on this guild after its expiry and on other
  guilds at any time, the guild's subscriptions stay as they are, so its duration never
  changes again.
\<close>

theorem expired_is_trap:
  assumes "Subscription_findOne g db = Some s"
    and "expiryDate z s = Some e"
    and "\<forall>ev \<in> set evs. guild_id (snd ev) = g \<longrightarrow> clock (fst ev) > e"
  shows "(isCommand i \<and> \<not> find_fails w \<and> guild_id i = g \<and> clock w > e \<longrightarrow>
            interactionCreate z owner w i db = (db, Some (ephemeralReply subscriptionExpired)))
    \<and> (guild_id i = g \<and> clock w > e \<longrightarrow> fst (interactionCreate z owner w i db) = db)
    \<and> filter (\<lambda>x. s_guildId x = g) (subscriptions (fst (run z owner evs db)))
         = filter (\<lambda>x. s_guildId x = g) (subscriptions db)
    \<and> Subscription_findOne g (fst (run z owner evs db)) = Some s
    \<and> (\<forall>k < length evs. guild_id (snd (evs ! k)) = g \<and> isCommand (snd (evs ! k))
           \<and> \<not> find_fails (fst (evs ! k)) \<longrightarrow>
         snd (run z owner evs db) ! k = Some (ephemeralReply subscriptionExpired))"
proof -
  have late: "\<forall>ev \<in> set evs. guild_id (snd ev) = g \<longrightarrow>
      dateGreater (clock (fst ev)) (expiryDate z s)"
    using assms(3) by (simp add: assms(2) dateGreater_Some)
  have one: "isCommand i \<and> \<not> find_fails w \<and> guild_id i = g \<and> clock w > e \<longrightarrow>
            interactionCreate z owner w i db = (db, Some (ephemeralReply subscriptionExpired))"
    using assms(1) by (simp add: denied_by_gate gate_found assms(2) dateGreater_Some)
  have same: "guild_id i = g \<and> clock w > e \<longrightarrow> fst (interactionCreate z owner w i db) = db"
  proof (cases "subscriptionGate z w i db")
    case (Inl r)
    then show ?thesis by (simp add: interactionCreate_def)
  next
    case (Inr s')
    then show ?thesis
      using assms(1) by (auto simp: gate_allowed_iff assms(2) dateGreater_Some)
  qed
  have docs: "filter (\<lambda>x. s_guildId x = g) (subscriptions (fst (run z owner evs db)))
         = filter (\<lambda>x. s_guildId x = g) (subscriptions db)"
    using assms(1) late by (rule run_keeps_guild)
  have found: "Subscription_findOne g (fst (run z owner evs db)) = Some s"
    using assms(1) by (simp only: findOne_by_filter [OF docs])
  have replies: "\<forall>k < length evs. guild_id (snd (evs ! k)) = g \<and> isCommand (snd (evs ! k))
           \<and> \<not> find_fails (fst (evs ! k)) \<longrightarrow>
         snd (run z owner evs db) ! k = Some (ephemeralReply subscriptionExpired)"
    using run_replies_expired [OF assms(1) late] by blast
  show ?thesis
    by (rule conjI [OF one conjI [OF same conjI [OF docs conjI [OF found replies]]]])
qed

theorem expired_is_trap_witness:
  "Subscription_findOne ''g1'' store30 = Some \<lparr>s_guildId = ''g1'', startDate = 0, duration = 30\<rparr>
   \<and> expiryDate utc \<lparr>s_guildId = ''g1'', startDate = 0, duration = 30\<rparr> = Some 2592000000
   \<and> interactionCreate utc ''owner'' (calm 2592000001) (request ''extendtime'' ''owner'' ''g1'')
        store30
       = (store30, Some (ephemeralReply subscriptionExpired))
   \<and> Subscription_findOne ''g1''
        (fst (run utc ''owner''
           [(calm 2592000001, request ''extendtime'' ''owner'' ''g1''),
            (calm 2592000002, request ''grantaccess'' ''u1'' ''g1'')] store30))
       = Some \<lparr>s_guildId = ''g1'', startDate = 0, duration = 30\<rparr>"
proof -
  let ?s = "\<lparr>s_guildId = ''g1'', startDate = 0, duration = 30\<rparr>"
  let ?evs = "[(calm 2592000001, request ''extendtime'' ''owner'' ''g1''),
               (calm 2592000002, request ''grantaccess'' ''u1'' ''g1'')]"
  have found: "Subscription_findOne ''g1'' store30 = Some ?s"
    by (simp add: Subscription_findOne_def store30_def)
  have expiry: "expiryDate utc ?s = Some 2592000000"
    by (simp add: expiryDate_def setDatePlus_def TimeClip_def LocalTime_def UTC_def utc_def
          msPerDay_def)
  have late: "\<forall>ev \<in> set ?evs. guild_id (snd ev) = ''g1'' \<longrightarrow> clock (fst ev) > 2592000000"
    by (simp add: calm_def)
  note trap = expired_is_trap [OF found expiry late,
      where i = "request ''extendtime'' ''owner'' ''g1''" and w = "calm 2592000001"
      and owner = "''owner''"]
  have denied: "interactionCreate utc ''owner'' (calm 2592000001)
      (request ''extendtime'' ''owner'' ''g1'') store30
       = (store30, Some (ephemeralReply subscriptionExpired))"
    using trap by (simp add: calm_def request_def)
  have kept: "Subscription_findOne ''g1'' (fst (run utc ''owner'' ?evs store30)) = Some ?s"
    using trap by (elim conjE)
  show ?thesis
    by (rule conjI [OF found conjI [OF expiry conjI [OF denied kept]]])
qed

end
